theory Spec2Isabelle
  imports Complex_Main "HOL-Library.Sublist"
begin

section \<open>JavaScript values used by the Funda pipeline\<close>

text \<open>
  A JavaScript string is a sequence of UTF-16 code units; it is modelled as the list of
  their numbers, so that the euro sign (code unit 8364) and the characters of the Latin-1
  range are ordinary elements. \<open>str\<close> turns an ASCII literal of the theory into such a
  string.
\<close>

type_synonym jsstring = "nat list"

definition str :: "string \<Rightarrow> jsstring" where
  "str s = map of_char s"

text \<open>
  A JavaScript number is a double. The model keeps the three kinds the code can tell
  apart (NaN, the infinities, a finite value) and holds a finite value as an exact
  rational: rounding and overflow of doubles are not modelled, and the two zeros are one.
\<close>

datatype number = NaN | Fin rat | PosInf | NegInf

text \<open>
  What a call throws is a value of the model: the result of a function that can throw is
  a sum, with the error on the left. The only error of this code is the \<open>TypeError\<close> of a
  method that the value at hand does not have.
\<close>

datatype error = TypeError

definition bindE :: "error + 'a \<Rightarrow> ('a \<Rightarrow> error + 'b) \<Rightarrow> error + 'b" where
  "bindE r f = (case r of Inl e \<Rightarrow> Inl e | Inr v \<Rightarrow> f v)"

fun truthy_number :: "number \<Rightarrow> bool" where
  "truthy_number NaN = False"
| "truthy_number (Fin q) = (q \<noteq> 0)"
| "truthy_number PosInf = True"
| "truthy_number NegInf = True"

definition truthy_string :: "jsstring \<Rightarrow> bool" where
  "truthy_string s = (s \<noteq> [])"

text \<open>A property that may be missing (\<open>undefined\<close> or \<open>null\<close>) is an option; a missing one is falsy.\<close>

fun truthy_opt :: "('a \<Rightarrow> bool) \<Rightarrow> 'a option \<Rightarrow> bool" where
  "truthy_opt t None = False"
| "truthy_opt t (Some v) = t v"

text \<open>\<open>x || d\<close> for a string property with a string default, and \<open>x || null\<close>.\<close>

fun or_default :: "jsstring option \<Rightarrow> jsstring \<Rightarrow> jsstring" where
  "or_default None d = d"
| "or_default (Some s) d = (if s = [] then d else s)"

fun or_null :: "jsstring option \<Rightarrow> jsstring option" where
  "or_null None = None"
| "or_null (Some s) = (if s = [] then None else Some s)"

fun number_or_null :: "number option \<Rightarrow> number option" where
  "number_or_null None = None"
| "number_or_null (Some n) = (if truthy_number n then Some n else None)"

subsection \<open>String built-ins\<close>

text \<open>The white space of \<open>\s\<close>, of \<open>trim\<close> and of the number parsers.\<close>

definition isWhiteSpace :: "nat \<Rightarrow> bool" where
  "isWhiteSpace c =
     (c \<in> set [9, 10, 11, 12, 13, 32, 160, 5760, 8232, 8233, 8239, 8287, 12288, 65279]
      \<or> (8192 \<le> c \<and> c \<le> 8202))"

definition isDigit :: "nat \<Rightarrow> bool" where
  "isDigit c = (48 \<le> c \<and> c \<le> 57)"

text \<open>
  \<open>toLowerCase\<close>. The capitals of ASCII and Latin-1 move up by 32, and five code units
  beyond 255 lower-case into the range below 256: the dotted capital I (304, to \<open>i\<close> and
  the combining dot 775), the capital Y with diaeresis (376), the capital sharp s (7838),
  the Kelvin sign (8490, to \<open>k\<close>) and the Angstrom sign (8491). Every other unit beyond
  255 lower-cases to units beyond 255 and is kept as it is: the code only looks for ASCII
  terms in a lower-cased string, or compares it with one, which such units never take
  part in.
\<close>

definition lower_unit :: "nat \<Rightarrow> nat list" where
  "lower_unit c =
     (if (65 \<le> c \<and> c \<le> 90) \<or> (192 \<le> c \<and> c \<le> 222 \<and> c \<noteq> 215) then [c + 32]
      else if c = 304 then [105, 775]
      else if c = 376 then [255]
      else if c = 7838 then [223]
      else if c = 8490 then [107]
      else if c = 8491 then [229]
      else [c])"

definition toLowerCase :: "jsstring \<Rightarrow> jsstring" where
  "toLowerCase s = concat (map lower_unit s)"

text \<open>\<open>s.includes(pat)\<close>: \<open>pat\<close> occurs in \<open>s\<close> as a contiguous run.\<close>

fun js_includes :: "jsstring \<Rightarrow> jsstring \<Rightarrow> bool" where
  "js_includes [] pat = (pat = [])"
| "js_includes (c # cs) pat = (prefix pat (c # cs) \<or> js_includes cs pat)"

text \<open>\<open>s.replace(a, b)\<close> with one-character strings: only the first occurrence is replaced.\<close>

fun replaceFirst :: "nat \<Rightarrow> nat \<Rightarrow> jsstring \<Rightarrow> jsstring" where
  "replaceFirst a b [] = []"
| "replaceFirst a b (c # cs) = (if c = a then b # cs else c # replaceFirst a b cs)"

definition trim :: "jsstring \<Rightarrow> jsstring" where
  "trim s = rev (dropWhile isWhiteSpace (rev (dropWhile isWhiteSpace s)))"

subsection \<open>Number parsers\<close>

definition digitsValue :: "jsstring \<Rightarrow> nat" where
  "digitsValue ds = foldl (\<lambda>a c. 10 * a + (c - 48)) 0 ds"

text \<open>An optional sign in front of a numeral: 45 is the minus sign, 43 the plus sign.\<close>

fun splitSign :: "jsstring \<Rightarrow> bool \<times> jsstring" where
  "splitSign [] = (False, [])"
| "splitSign (c # cs) =
     (if c = 45 then (True, cs) else if c = 43 then (False, cs) else (False, c # cs))"

text \<open>
  \<open>parseInt(s, 10)\<close>: leading white space is skipped, then a sign and the longest run of
  decimal digits are read; with no digit the result is NaN.
\<close>

definition parseInt :: "jsstring \<Rightarrow> number" where
  "parseInt s =
     (let (neg, u) = splitSign (dropWhile isWhiteSpace s);
          ds = takeWhile isDigit u
      in if ds = [] then NaN
         else Fin (if neg then - of_nat (digitsValue ds) else of_nat (digitsValue ds)))"

text \<open>The exponent part of a decimal literal (\<open>e\<close> or \<open>E\<close>, a sign, at least one digit).\<close>

fun exponentPart :: "jsstring \<Rightarrow> int" where
  "exponentPart [] = 0"
| "exponentPart (c # cs) =
     (if c = 101 \<or> c = 69 then
        (let (neg, u) = splitSign cs; ds = takeWhile isDigit u
         in if ds = [] then 0
            else if neg then - int (digitsValue ds) else int (digitsValue ds))
      else 0)"

definition scale10 :: "rat \<Rightarrow> int \<Rightarrow> rat" where
  "scale10 q e = (if 0 \<le> e then q * 10 ^ nat e else q / 10 ^ nat (- e))"

text \<open>
  \<open>parseFloat(s)\<close>: leading white space is skipped and the longest prefix that is a
  decimal literal is read (sign, \<open>Infinity\<close>, or digits with an optional fraction and
  exponent); what follows is ignored, and with no such prefix the result is NaN.
\<close>

definition parseFloat :: "jsstring \<Rightarrow> number" where
  "parseFloat s =
     (let (neg, u) = splitSign (dropWhile isWhiteSpace s) in
      if prefix (str ''Infinity'') u then (if neg then NegInf else PosInf)
      else
        (let ip = takeWhile isDigit u;
             r1 = dropWhile isDigit u;
             (fp, r2) = (case r1 of
                           [] \<Rightarrow> ([], r1)
                         | c # r \<Rightarrow> if c = 46 then (takeWhile isDigit r, dropWhile isDigit r)
                                    else ([], r1))
         in if ip = [] \<and> fp = [] then NaN
            else
              (let m = of_nat (digitsValue ip) + of_nat (digitsValue fp) / 10 ^ length fp;
                   v = scale10 m (exponentPart r2)
               in Fin (if neg then - v else v))))"

text \<open>\<open>s.match(/(\d+)/)\<close>: the first maximal run of digits, or no match.\<close>

definition matchDigits :: "jsstring \<Rightarrow> jsstring option" where
  "matchDigits s =
     (let r = dropWhile (\<lambda>c. \<not> isDigit c) s
      in if r = [] then None else Some (takeWhile isDigit r))"

section \<open>The characteristic sections of a listing (api-client.ts)\<close>

text \<open>
  The \<open>Value\<close> of an entry. Its declared type is \<open>string\<close> for the entries of a section,
  and the entries of a nested list are \<open>any\<close>. A value is a string (\<open>Str\<close>), or a truthy
  value that is no string: a number other than zero, \<open>true\<close>, an array or an object
  (\<open>NonStr\<close>). A value that is no string carries the text that \<open>String(v)\<close> makes of it,
  or nothing where that conversion throws (an object whose \<open>toString\<close> is no function).
  The falsy values 0, \<open>false\<close> and \<open>null\<close> are read by \<open>|| null\<close> as a missing value is,
  and are a missing value here.
\<close>

datatype kvalue = Str jsstring | NonStr "jsstring option"

fun truthy_kvalue :: "kvalue \<Rightarrow> bool" where
  "truthy_kvalue (Str s) = (s \<noteq> [])"
| "truthy_kvalue (NonStr t) = True"

text \<open>\<open>field?.Value || null\<close>.\<close>

fun value_or_null :: "kvalue option \<Rightarrow> kvalue option" where
  "value_or_null None = None"
| "value_or_null (Some v) = (if truthy_kvalue v then Some v else None)"

text \<open>
  An entry of a \<open>KenmerkenList\<close> has an optional \<open>Id\<close>, a \<open>Value\<close> and, when it is a
  group, a nested \<open>KenmerkenList\<close>. An element of a list is an entry or \<open>null\<close> (\<open>None\<close>),
  which the type \<open>any[]\<close> of a nested list admits; an element that is a number, a string
  or a truth value has no property at all and is the entry with nothing in it. An \<open>Id\<close>
  that is no string equals no field id and is a missing \<open>Id\<close>; a \<open>KenmerkenList\<close> that is
  no array is not descended into and is a missing list. A section of \<open>KenmerkSections\<close>
  has an \<open>Id\<close> and its \<open>KenmerkenList\<close>.
\<close>

datatype kenmerk =
  Kenmerk (Id: "jsstring option") (Value: "kvalue option")
    (KenmerkenList: "kenmerk option list option")

datatype kenmerk_section =
  KenmerkSection (section_Id: jsstring) (section_KenmerkenList: "kenmerk option list option")

lemma size_KenmerkenList [termination_simp]:
  "KenmerkenList item = Some sub \<Longrightarrow> size_list (size_option size) sub < size item"
  by (cases item) simp

text \<open>
  The local function \<open>flatten\<close> of \<open>parseKenmerkValue\<close>. It pushes onto the array
  \<open>flatList\<close>, which is threaded through here: each entry is pushed, then its nested list
  is flattened, then the loop goes on with the next entry. Reading \<open>item.KenmerkenList\<close>
  of a \<open>null\<close> element throws.
\<close>

fun flatten :: "kenmerk option list \<Rightarrow> kenmerk list \<Rightarrow> error + kenmerk list" where
  "flatten [] flatList = Inr flatList"
| "flatten (None # list) flatList = Inl TypeError"
| "flatten (Some item # list) flatList =
     (let pushed = flatList @ [item]
      in case KenmerkenList item of
           None \<Rightarrow> flatten list pushed
         | Some sub \<Rightarrow>
             (case flatten sub pushed of
                Inl e \<Rightarrow> Inl e
              | Inr flatList' \<Rightarrow> flatten list flatList'))"

text \<open>\<open>parseKenmerkValue\<close>; its \<open>catch\<close> returns \<open>null\<close> for whatever \<open>flatten\<close> throws.\<close>

definition parseKenmerkValue ::
  "kenmerk_section list \<Rightarrow> jsstring \<Rightarrow> jsstring \<Rightarrow> kvalue option" where
  "parseKenmerkValue sections sectionId fieldId =
     (case find (\<lambda>s. section_Id s = sectionId) sections of
        None \<Rightarrow> None
      | Some section \<Rightarrow>
          (case section_KenmerkenList section of
             None \<Rightarrow> None
           | Some list \<Rightarrow>
               (case flatten list [] of
                  Inl e \<Rightarrow> None
                | Inr flatList \<Rightarrow>
                    (case find (\<lambda>item. Id item = Some fieldId) flatList of
                       None \<Rightarrow> None
                     | Some field \<Rightarrow> value_or_null (Value field)))))"

subsection \<open>The resolution as the specification words it\<close>

text \<open>
  Depth first, parent before child: an entry comes first, the entries below it follow in
  their order, and only then the next entry of the same list.
\<close>

fun preorder :: "kenmerk \<Rightarrow> kenmerk list" where
  "preorder (Kenmerk i v None) = [Kenmerk i v None]"
| "preorder (Kenmerk i v (Some sub)) =
     Kenmerk i v (Some sub)
       # concat (map (\<lambda>e. case e of None \<Rightarrow> [] | Some k \<Rightarrow> preorder k) sub)"

text \<open>A tree is malformed when a \<open>null\<close> stands for an entry anywhere in it.\<close>

fun wellformed :: "kenmerk \<Rightarrow> bool" where
  "wellformed (Kenmerk i v None) = True"
| "wellformed (Kenmerk i v (Some sub)) =
     list_all (\<lambda>e. case e of None \<Rightarrow> False | Some k \<Rightarrow> wellformed k) sub"

definition entries_ok :: "kenmerk option list \<Rightarrow> bool" where
  "entries_ok list = list_all (\<lambda>e. case e of None \<Rightarrow> False | Some k \<Rightarrow> wellformed k) list"

definition entries_preorder :: "kenmerk option list \<Rightarrow> kenmerk list" where
  "entries_preorder list =
     concat (map (\<lambda>e. case e of None \<Rightarrow> [] | Some k \<Rightarrow> preorder k) list)"

text \<open>The flattened fields of a section; a section without a list or with a malformed one has none.\<close>

definition flattened :: "kenmerk_section \<Rightarrow> kenmerk list" where
  "flattened section =
     (case section_KenmerkenList section of
        None \<Rightarrow> []
      | Some list \<Rightarrow> if entries_ok list then entries_preorder list else [])"

text \<open>
  A field without a value, or with the empty string for one, has no value to return. A
  value that is there is returned as it is, also when it is no string.
\<close>

definition resolve_spec ::
  "kenmerk_section list \<Rightarrow> jsstring \<Rightarrow> jsstring \<Rightarrow> kvalue option" where
  "resolve_spec sections sectionId fieldId =
     (case find (\<lambda>s. section_Id s = sectionId) sections of
        None \<Rightarrow> None
      | Some section \<Rightarrow>
          (case find (\<lambda>field. Id field = Some fieldId) (flattened section) of
             None \<Rightarrow> None
           | Some field \<Rightarrow>
               (case Value field of
                  None \<Rightarrow> None
                | Some (Str v) \<Rightarrow> if v = [] then None else Some (Str v)
                | Some (NonStr t) \<Rightarrow> Some (NonStr t))))"

section \<open>The raw listing and its parsed form (types.ts, api-client.ts)\<close>

text \<open>
  \<open>FundaListingResponse\<close>, with the properties \<open>parseListingResponse\<close> reads. The code
  guards every access (\<open>?.\<close>, \<open>|| {}\<close>, \<open>|| ''\<close>), so each property may be missing.
  Where only one leaf of a nested object is read (\<open>Price.NumericSellingPrice\<close>,
  \<open>Urls.FriendlyUrl.FullUrl\<close>, \<open>ListingDescription.Description\<close>, the \<open>Id\<close>s of
  \<open>Media.Photos.Items\<close>), the record holds that leaf, missing when an object on the path is.
\<close>

record identifiers =
  GlobalId :: "number option"
  TinyId :: "jsstring option"

record address_details =
  Title :: "jsstring option"
  City :: "jsstring option"
  Province :: "jsstring option"
  Country :: "jsstring option"
  HouseNumber :: "jsstring option"
  PostCode :: "jsstring option"

record coordinates =
  Latitude :: "number option"
  Longitude :: "number option"

record object_insights =
  Views :: "jsstring option"
  Saves :: "jsstring option"

record FundaListingResponse =
  Identifiers :: "identifiers option"
  NumericSellingPrice :: "number option"
  KenmerkSections :: "kenmerk_section list option"
  FullUrl :: "jsstring option"
  Description :: "jsstring option"
  AddressDetails :: "address_details option"
  Coordinates :: "coordinates option"
  PhotoIds :: "jsstring option list option"
  IsSoldOrRented :: "bool option"
  ObjectType :: "jsstring option"
  OfferingType :: "jsstring option"
  PublicationDate :: "jsstring option"
  ObjectInsights :: "object_insights option"

datatype TransactionType = Sale | Rent | Unknown

text \<open>
  \<open>FundaPropertyData\<close>. \<open>scrapedAt\<close> is \<open>new Date().toISOString()\<close>: the ISO rendering of
  an instant is one-to-one, and the field holds the instant itself (milliseconds). The
  three fields that \<open>parseKenmerkSections\<close> copies from the characteristics as they are
  (\<open>dutchPropertyType\<close>, \<open>constructionType\<close>, \<open>parkingType\<close>) are declared strings and hold
  whatever value the entry had.
\<close>

record FundaPropertyData =
  tinyId :: jsstring
  globalId :: number
  url :: jsstring
  title :: jsstring
  address :: jsstring
  postalCode :: jsstring
  city :: jsstring
  province :: jsstring
  country :: jsstring
  latitude :: "number option"
  longitude :: "number option"
  price :: "number option"
  currency :: jsstring
  pricePerSqm :: "jsstring option"
  sqm :: "number option"
  plotSqm :: "number option"
  rooms :: "number option"
  bedrooms :: "number option"
  bathrooms :: "number option"
  yearBuilt :: "number option"
  objectType :: jsstring
  dutchPropertyType :: "kvalue option"
  constructionType :: "kvalue option"
  energyLabel :: "jsstring option"
  parkingType :: "kvalue option"
  hasParking :: "bool option"
  description :: jsstring
  images :: "jsstring list"
  views :: number
  saves :: number
  transactionType :: TransactionType
  publicationDate :: "jsstring option"
  isSoldOrRented :: bool
  scrapedAt :: int

text \<open>The \<open>Partial<FundaPropertyData>\<close> that \<open>parseKenmerkSections\<close> fills.\<close>

record kenmerk_data =
  k_pricePerSqm :: "jsstring option"
  k_dutchPropertyType :: "kvalue option"
  k_constructionType :: "kvalue option"
  k_yearBuilt :: "number option"
  k_sqm :: "number option"
  k_plotSqm :: "number option"
  k_rooms :: "number option"
  k_bedrooms :: "number option"
  k_bathrooms :: "number option"
  k_energyLabel :: "jsstring option"
  k_parkingType :: "kvalue option"
  k_hasParking :: "bool option"

text \<open>
  The cleaning of the price per square metre in \<open>parseKenmerkSections\<close>:
  \<open>replace(/[\<euro>\s.]/g, '').replace(',', '.')\<close>, the euro sign being code unit 8364.
\<close>

definition cleanPricePerM2 :: "jsstring \<Rightarrow> jsstring" where
  "cleanPricePerM2 s =
     replaceFirst 44 46 (filter (\<lambda>c. \<not> (c = 8364 \<or> isWhiteSpace c \<or> c = 46)) s)"

text \<open>
  A method of strings called on a value (\<open>replace\<close>, \<open>match\<close>, \<open>trim\<close>, \<open>toLowerCase\<close>): a
  value that is no string has no such method and the call throws. The result of the
  method may itself be missing (a \<open>match\<close> that fails).
\<close>

fun on_string :: "(jsstring \<Rightarrow> 'a option) \<Rightarrow> kvalue option \<Rightarrow> error + 'a option" where
  "on_string f None = Inr None"
| "on_string f (Some (Str s)) = Inr (f s)"
| "on_string f (Some (NonStr t)) = Inl TypeError"

text \<open>
  The conversion of a value to a string, as \<open>parseInt\<close> and a template literal make it;
  it throws for a value that cannot be converted.
\<close>

fun to_text :: "kvalue \<Rightarrow> error + jsstring" where
  "to_text (Str s) = Inr s"
| "to_text (NonStr (Some t)) = Inr t"
| "to_text (NonStr None) = Inl TypeError"

text \<open>The text of a value that can be converted.\<close>

fun printed :: "kvalue \<Rightarrow> jsstring" where
  "printed (Str s) = s"
| "printed (NonStr (Some t)) = t"
| "printed (NonStr None) = []"

fun on_text :: "(jsstring \<Rightarrow> 'a) \<Rightarrow> kvalue option \<Rightarrow> error + 'a option" where
  "on_text f None = Inr None"
| "on_text f (Some v) = bindE (to_text v) (\<lambda>s. Inr (Some (f s)))"

text \<open>The pattern \<open>match(/(\d+)/)\<close> then \<open>parseInt(match[1], 10)\<close> of the numeric characteristics.\<close>

definition firstInt :: "jsstring \<Rightarrow> number option" where
  "firstInt s = (case matchDigits s of None \<Rightarrow> None | Some m \<Rightarrow> Some (parseInt m))"

text \<open>
  \<open>parseKenmerkSections\<close>, the statements in the order of the source. Each value comes
  from \<open>parseKenmerkValue\<close> and is truthy when it is there, so that the tests \<open>if (x)\<close> of
  the source are the case of a value that is there.
\<close>

definition parseKenmerkSections :: "FundaListingResponse \<Rightarrow> error + kenmerk_data" where
  "parseKenmerkSections data =
     (let sections = (case KenmerkSections data of None \<Rightarrow> [] | Some ss \<Rightarrow> ss);
          pricePerM2 = parseKenmerkValue sections (str ''overdracht'') (str ''overdracht-vraagprijsperm2'');
          propertyType = parseKenmerkValue sections (str ''bouw'') (str ''bouw-soortobject'');
          constructionType = parseKenmerkValue sections (str ''bouw'') (str ''bouw-soortbouw'');
          yearBuilt = parseKenmerkValue sections (str ''bouw'') (str ''bouw-bouwjaar'');
          livingArea = parseKenmerkValue sections (str ''afmetingen'')
                         (str ''afmetingen-gebruiksoppervlakten-wonen'');
          plotArea = parseKenmerkValue sections (str ''afmetingen'')
                       (str ''afmetingen-gebruiksoppervlakten-tuin'');
          rooms = parseKenmerkValue sections (str ''indeling'') (str ''indeling-kamers'');
          bedrooms = parseKenmerkValue sections (str ''indeling'') (str ''indeling-slaapkamers'');
          bathrooms = parseKenmerkValue sections (str ''indeling'') (str ''indeling-badkamers'');
          energyLabel = parseKenmerkValue sections (str ''energie'') (str ''energie-energielabel'');
          parking = parseKenmerkValue sections (str ''parkeergelegenheid'')
                      (str ''parkeergelegenheid-soort'')
      in bindE (on_string (\<lambda>s. Some (cleanPricePerM2 s)) pricePerM2) (\<lambda>pricePerSqm'.
         bindE (on_text parseInt yearBuilt) (\<lambda>yearBuilt'.
         bindE (on_string firstInt livingArea) (\<lambda>sqm'.
         bindE (on_string firstInt plotArea) (\<lambda>plotSqm'.
         bindE (on_string firstInt rooms) (\<lambda>rooms'.
         bindE (on_string firstInt bedrooms) (\<lambda>bedrooms'.
         bindE (on_string firstInt bathrooms) (\<lambda>bathrooms'.
         bindE (on_string (\<lambda>s. Some (trim s)) energyLabel) (\<lambda>energyLabel'.
           Inr \<lparr> k_pricePerSqm = pricePerSqm',
                 k_dutchPropertyType = propertyType,
                 k_constructionType = constructionType,
                 k_yearBuilt = yearBuilt',
                 k_sqm = sqm',
                 k_plotSqm = plotSqm',
                 k_rooms = rooms',
                 k_bedrooms = bedrooms',
                 k_bathrooms = bathrooms',
                 k_energyLabel = energyLabel',
                 k_parkingType = parking,
                 k_hasParking = map_option (\<lambda>p. True) parking \<rparr>)))))))))"

definition extractImages :: "jsstring option list option \<Rightarrow> jsstring list" where
  "extractImages items =
     (case items of
        None \<Rightarrow> []
      | Some its \<Rightarrow>
          map (\<lambda>i. str ''https://cloud.funda.nl/valentina_media/'' @ or_default i []
                    @ str ''_1440x960.jpg'')
            (filter (truthy_opt truthy_string) its))"

text \<open>A property of an object that may itself be missing (\<open>data.AddressDetails || {}\<close>).\<close>

definition field_of :: "('r \<Rightarrow> 'a option) \<Rightarrow> 'r option \<Rightarrow> 'a option" where
  "field_of f obj = (case obj of None \<Rightarrow> None | Some r \<Rightarrow> f r)"

definition number_or :: "number option \<Rightarrow> number \<Rightarrow> number" where
  "number_or n d = (case number_or_null n of None \<Rightarrow> d | Some v \<Rightarrow> v)"

text \<open>
  \<open>parseListingResponse\<close> of the API client. The reading of the clock by \<open>new Date()\<close> is
  the argument \<open>now\<close>. It throws what \<open>parseKenmerkSections\<close>, its first statement, throws.
\<close>

definition parseListingResponse ::
  "int \<Rightarrow> FundaListingResponse \<Rightarrow> error + FundaPropertyData" where
  "parseListingResponse now data =
     bindE (parseKenmerkSections data) (\<lambda>kenmerkData.
     (let addressDetails = AddressDetails data;
          address = (if truthy_opt truthy_string (field_of HouseNumber addressDetails)
                     then or_default (field_of Title addressDetails) []
                     else []);
          offeringType = toLowerCase (or_default (OfferingType data) (str ''Unknown''));
          transactionType = (if offeringType = str ''rent'' then Rent
                             else if offeringType = str ''sale'' then Sale else Unknown);
          insights = ObjectInsights data
      in Inr
         \<lparr> tinyId = or_default (field_of TinyId (Identifiers data)) [],
           globalId = number_or (field_of GlobalId (Identifiers data)) (Fin 0),
           url = or_default (FullUrl data) [],
           title = or_default (field_of Title addressDetails) [],
           address = address,
           postalCode = or_default (field_of PostCode addressDetails) [],
           city = or_default (field_of City addressDetails) [],
           province = or_default (field_of Province addressDetails) [],
           country = or_default (field_of Country addressDetails) (str ''Netherlands''),
           latitude = number_or_null (field_of Latitude (Coordinates data)),
           longitude = number_or_null (field_of Longitude (Coordinates data)),
           price = number_or_null (NumericSellingPrice data),
           currency = str ''EUR'',
           pricePerSqm = k_pricePerSqm kenmerkData,
           sqm = k_sqm kenmerkData,
           plotSqm = k_plotSqm kenmerkData,
           rooms = k_rooms kenmerkData,
           bedrooms = k_bedrooms kenmerkData,
           bathrooms = k_bathrooms kenmerkData,
           yearBuilt = k_yearBuilt kenmerkData,
           objectType = or_default (ObjectType data) (str ''Unknown''),
           dutchPropertyType = k_dutchPropertyType kenmerkData,
           constructionType = k_constructionType kenmerkData,
           energyLabel = k_energyLabel kenmerkData,
           parkingType = k_parkingType kenmerkData,
           hasParking = k_hasParking kenmerkData,
           description = or_default (Description data) [],
           images = extractImages (PhotoIds data),
           views = parseInt (or_default (field_of Views insights) (str ''0'')),
           saves = parseInt (or_default (field_of Saves insights) (str ''0'')),
           transactionType = transactionType,
           publicationDate = PublicationDate data,
           isSoldOrRented = (case IsSoldOrRented data of None \<Rightarrow> False | Some b \<Rightarrow> b),
           scrapedAt = now \<rparr>))"

section \<open>The transformer to the standard format\<close>

datatype status = active | removed | sold | rented

text \<open>
  A value of the extension bag: a string, a number, or a characteristic value that is no
  string, kept as it came.
\<close>

datatype jsvalue = VString jsstring | VNumber number | VOther "jsstring option"

fun of_kvalue :: "kvalue \<Rightarrow> jsvalue" where
  "of_kvalue (Str s) = VString s"
| "of_kvalue (NonStr t) = VOther t"

record coordinates_out =
  lat :: number
  lon :: number

record location =
  loc_address :: jsstring
  loc_city :: jsstring
  loc_region :: jsstring
  loc_country :: jsstring
  loc_postal_code :: jsstring
  loc_coordinates :: "coordinates_out option"

record details =
  det_bedrooms :: "number option"
  det_bathrooms :: "number option"
  det_sqm :: "number option"
  det_sqm_type :: jsstring
  det_rooms :: "number option"
  det_year_built :: "number option"

record amenities =
  has_parking :: bool
  has_garden :: "bool option"
  is_furnished :: "bool option"
  is_new_construction :: "bool option"

text \<open>
  \<open>StandardProperty\<close>. The extension bag \<open>country_specific\<close> is a \<open>Record<string, any>\<close>:
  a map from the key to a string or a number, with no entry for a key never assigned.
\<close>

record StandardProperty =
  sp_title :: jsstring
  sp_price :: number
  sp_currency :: jsstring
  property_type :: jsstring
  transaction_type :: TransactionType
  source_url :: jsstring
  sp_location :: location
  sp_details :: details
  sp_images :: "jsstring list"
  sp_description :: jsstring
  description_language :: jsstring
  sp_features :: "jsstring list"
  sp_amenities :: amenities
  energy_rating :: "jsstring option"
  price_per_sqm :: "number option"
  country_specific :: "string \<rightharpoonup> jsvalue"
  sp_status :: status

text \<open>\<open>${x || ''}\<close> in a template literal: a falsy value gives the empty text.\<close>

fun text_or_empty :: "kvalue option \<Rightarrow> error + jsstring" where
  "text_or_empty None = Inr []"
| "text_or_empty (Some v) = (if truthy_kvalue v then to_text v else Inr [])"

text \<open>
  \<open>normalizePropertyType(dutchType, objectType)\<close>, the checks in the order of the source.
  The second argument is the \<open>objectType\<close> of the parsed record, a string; the first is its
  \<open>dutchPropertyType\<close>, which the template literal converts to text.
\<close>

definition normalizePropertyType :: "kvalue option \<Rightarrow> jsstring option \<Rightarrow> error + jsstring" where
  "normalizePropertyType dutchType objectType' =
     (if \<not> truthy_opt truthy_kvalue dutchType \<and> \<not> truthy_opt truthy_string objectType'
      then Inr (str ''property'')
      else
        bindE (text_or_empty dutchType) (\<lambda>dutchText.
        (let combined = toLowerCase (dutchText @ str '' '' @ or_default objectType' [])
         in Inr
           (if js_includes combined (str ''appartement'') \<or> js_includes combined (str ''apartment'')
            then str ''apartment''
            else if js_includes combined (str ''woning'')
                    \<or> js_includes combined (str ''eengezinswoning'')
                    \<or> js_includes combined (str ''huis'')
            then str ''house''
            else if js_includes combined (str ''villa'') then str ''villa''
            else if js_includes combined (str ''bungalow'') then str ''bungalow''
            else if js_includes combined (str ''studio'') then str ''studio''
            else if js_includes combined (str ''kamer'') then str ''room''
            else if js_includes combined (str ''tuin'') \<or> js_includes combined (str ''grond'')
            then str ''land''
            else if js_includes combined (str ''nieuwbouw'') then str ''new-construction''
            else if js_includes combined (str ''boerderij'') then str ''farm''
            else str ''property''))))"

text \<open>
  \<open>parsePricePerSqm\<close>. The character class of its pattern holds, in the source file, the
  three characters with the code units 226, 8218 and 172 (the euro sign read in the wrong
  encoding), then \<open>\s\<close> and the full stop; the euro sign 8364 is not among them.
\<close>

definition parsePricePerSqm :: "jsstring option \<Rightarrow> number option" where
  "parsePricePerSqm pricePerSqmStr =
     (case or_null pricePerSqmStr of
        None \<Rightarrow> None
      | Some s \<Rightarrow>
          (let cleaned = replaceFirst 44 46
                 (filter (\<lambda>c. \<not> (c = 226 \<or> c = 8218 \<or> c = 172 \<or> isWhiteSpace c \<or> c = 46)) s);
               num = parseFloat cleaned
           in if num = NaN then None else Some num))"

text \<open>\<open>if (x) features.push(`label${x}`)\<close> for a characteristic value.\<close>

fun feature :: "jsstring \<Rightarrow> kvalue option \<Rightarrow> error + jsstring list" where
  "feature label None = Inr []"
| "feature label (Some v) =
     (if truthy_kvalue v then bindE (to_text v) (\<lambda>t. Inr [label @ t]) else Inr [])"

definition extractFeatures :: "FundaPropertyData \<Rightarrow> error + jsstring list" where
  "extractFeatures data =
     (let energy = (case or_null (energyLabel data) of
                      None \<Rightarrow> []
                    | Some l \<Rightarrow> [str ''Energy Label: '' @ l])
      in bindE (feature (str ''Parking: '') (parkingType data)) (\<lambda>parking.
         bindE (feature (str ''Construction: '') (constructionType data)) (\<lambda>construction.
           Inr (energy @ parking @ construction))))"

fun greater0 :: "number \<Rightarrow> bool" where
  "greater0 NaN = False"
| "greater0 (Fin q) = (0 < q)"
| "greater0 PosInf = True"
| "greater0 NegInf = False"

text \<open>
  The extension bag of \<open>transformToStandard\<close>: the object starts empty and each guarded
  assignment of the source adds its key.
\<close>

definition set_key ::
  "bool \<Rightarrow> string \<Rightarrow> jsvalue option \<Rightarrow> (string \<rightharpoonup> jsvalue) \<Rightarrow> (string \<rightharpoonup> jsvalue)" where
  "set_key guard k v cs = (if guard then cs(k := v) else cs)"

definition countrySpecific :: "FundaPropertyData \<Rightarrow> (string \<rightharpoonup> jsvalue)" where
  "countrySpecific data =
     (let pricePerSqm' = parsePricePerSqm (pricePerSqm data);
          cs0 = Map.empty;
          cs1 = set_key (truthy_opt truthy_kvalue (dutchPropertyType data))
                  ''dutch_property_type'' (map_option of_kvalue (dutchPropertyType data)) cs0;
          cs2 = set_key (truthy_opt truthy_kvalue (constructionType data))
                  ''construction_type'' (map_option of_kvalue (constructionType data)) cs1;
          cs3 = set_key (truthy_opt truthy_kvalue (parkingType data))
                  ''parking_type'' (map_option of_kvalue (parkingType data)) cs2;
          cs4 = set_key (truthy_string (province data))
                  ''province'' (Some (VString (province data))) cs3;
          cs5 = set_key (truthy_opt truthy_string (energyLabel data))
                  ''energy_label'' (map_option VString (energyLabel data)) cs4;
          cs6 = set_key (truthy_opt truthy_number (plotSqm data))
                  ''plot_sqm'' (map_option VNumber (plotSqm data)) cs5;
          cs7 = set_key (truthy_opt truthy_number pricePerSqm')
                  ''price_per_sqm_original'' (map_option VString (pricePerSqm data)) cs6;
          cs8 = set_key (truthy_number (views data))
                  ''views'' (Some (VNumber (views data))) cs7;
          cs9 = set_key (truthy_number (saves data))
                  ''saves'' (Some (VNumber (saves data))) cs8;
          cs10 = set_key (truthy_opt truthy_string (publicationDate data))
                  ''publication_date'' (map_option VString (publicationDate data)) cs9
      in cs10)"

text \<open>
  \<open>transformToStandard\<close>. Three of its steps can throw: the template literal of
  \<open>normalizePropertyType\<close>, those of \<open>extractFeatures\<close>, and \<open>toLowerCase\<close> on the Dutch
  label for \<open>is_new_construction\<close> (\<open>?.\<close> guards a missing label only).
\<close>

definition transformToStandard :: "FundaPropertyData \<Rightarrow> error + StandardProperty" where
  "transformToStandard data =
     bindE (normalizePropertyType (dutchPropertyType data) (Some (objectType data)))
       (\<lambda>propertyType.
     (let pricePerSqm' = parsePricePerSqm (pricePerSqm data);
          status = (if isSoldOrRented data
                    then (if transactionType data = Rent then rented else sold)
                    else active)
      in bindE (extractFeatures data) (\<lambda>features.
         bindE (on_string (\<lambda>t. Some (js_includes (toLowerCase t) (str ''nieuwbouw'')))
                  (dutchPropertyType data)) (\<lambda>isNewConstruction.
         Inr
         \<lparr> sp_title = title data,
           sp_price = number_or (price data) (Fin 0),
           sp_currency = currency data,
           property_type = propertyType,
           transaction_type = (if transactionType data = Rent then Rent else Sale),
           source_url = url data,
           sp_location =
             \<lparr> loc_address = address data,
               loc_city = city data,
               loc_region = province data,
               loc_country = country data,
               loc_postal_code = postalCode data,
               loc_coordinates =
                 (case (number_or_null (latitude data), number_or_null (longitude data)) of
                    (Some la, Some lo) \<Rightarrow> Some \<lparr> lat = la, lon = lo \<rparr>
                  | _ \<Rightarrow> None) \<rparr>,
           sp_details =
             \<lparr> det_bedrooms = bedrooms data,
               det_bathrooms = bathrooms data,
               det_sqm = sqm data,
               det_sqm_type = str ''living'',
               det_rooms = rooms data,
               det_year_built = yearBuilt data \<rparr>,
           sp_images = images data,
           sp_description = description data,
           description_language = str ''nl'',
           sp_features = features,
           sp_amenities =
             \<lparr> has_parking = (case hasParking data of None \<Rightarrow> False | Some b \<Rightarrow> b),
               has_garden = map_option greater0 (number_or_null (plotSqm data)),
               is_furnished = None,
               is_new_construction = isNewConstruction \<rparr>,
           energy_rating = energyLabel data,
           price_per_sqm = pricePerSqm',
           country_specific = countrySpecific data,
           sp_status = status \<rparr>))))"

section \<open>The normalizer of the REST scraper\<close>

datatype PriceUnit = total | per_month

text \<open>
  \<open>FundaProperty\<close>, the record of both scrapers. The properties that the interface marks
  optional and that one of the two normalizers leaves out are options.
\<close>

record FundaProperty_location =
  fl_address :: "jsstring option"
  fl_city :: jsstring
  fl_country :: jsstring
  fl_postalCode :: "jsstring option"
  fl_latitude :: "number option"
  fl_longitude :: "number option"

record FundaProperty_details =
  fd_sqm :: "number option"
  fd_rooms :: "number option"
  fd_bedrooms :: "number option"
  fd_bathrooms :: "number option"
  fd_yearBuilt :: "number option"
  fd_gardenSqm :: "number option"
  fd_parking :: "bool option"

record FundaProperty =
  fp_id :: jsstring
  fp_source :: jsstring
  fp_url :: jsstring
  fp_title :: jsstring
  fp_price :: "number option"
  fp_currency :: jsstring
  fp_priceUnit :: PriceUnit
  fp_propertyType :: jsstring
  fp_transactionType :: TransactionType
  fp_status :: jsstring
  fp_location :: FundaProperty_location
  fp_details :: FundaProperty_details
  fp_features :: "jsstring list"
  fp_images :: "jsstring list"
  fp_description :: "jsstring option"
  fp_scrapedAt :: int

text \<open>
  The property type that \<open>normalizePropertyFromAPI\<close> computes in place: from the Dutch
  label when there is one, else from the object type, each with its own list of terms.
  \<open>toLowerCase\<close> on a Dutch label that is no string throws.
\<close>

definition propertyTypeFromAPI :: "FundaPropertyData \<Rightarrow> error + jsstring" where
  "propertyTypeFromAPI data =
     (case value_or_null (dutchPropertyType data) of
        Some (NonStr t) \<Rightarrow> Inl TypeError
      | Some (Str d) \<Rightarrow>
          (let dutch = toLowerCase d
           in Inr
             (if js_includes dutch (str ''appartement'') then str ''apartment''
              else if js_includes dutch (str ''huis'') \<or> js_includes dutch (str ''woning'')
              then str ''house''
              else if js_includes dutch (str ''studio'') then str ''studio''
              else if js_includes dutch (str ''villa'') then str ''villa''
              else if js_includes dutch (str ''bungalow'') then str ''bungalow''
              else if js_includes dutch (str ''tuin'') then str ''land''
              else if js_includes dutch (str ''nieuwbouw'') then str ''new-construction''
              else str ''property''))
      | None \<Rightarrow>
          (if truthy_string (objectType data) then
             (let obj = toLowerCase (objectType data)
              in Inr
                (if js_includes obj (str ''apartment'') then str ''apartment''
                 else if js_includes obj (str ''house'') then str ''house''
                 else if js_includes obj (str ''studio'') then str ''studio''
                 else if js_includes obj (str ''villa'') then str ''villa''
                 else str ''property''))
           else Inr (str ''property'')))"

text \<open>\<open>normalizePropertyFromAPI\<close>; \<open>None\<close> is its \<open>return null\<close>.\<close>

definition normalizePropertyFromAPI :: "FundaPropertyData \<Rightarrow> error + FundaProperty option" where
  "normalizePropertyFromAPI data =
     (if \<not> truthy_string (title data) \<and> \<not> truthy_opt truthy_number (price data) then Inr None
      else
        bindE (propertyTypeFromAPI data) (\<lambda>propertyType.
        (let priceUnit = (if transactionType data = Rent then per_month else total);
             status = (if isSoldOrRented data
                       then (if transactionType data = Rent then str ''rented'' else str ''sold'')
                       else str ''available'')
         in Inr (Some
              \<lparr> fp_id = tinyId data,
                fp_source = str ''funda-netherlands-api'',
                fp_url = url data,
                fp_title = title data,
                fp_price = price data,
                fp_currency = currency data,
                fp_priceUnit = priceUnit,
                fp_propertyType = propertyType,
                fp_transactionType = transactionType data,
                fp_status = status,
                fp_location =
                  \<lparr> fl_address = Some (address data),
                    fl_city = city data,
                    fl_country = country data,
                    fl_postalCode = Some (postalCode data),
                    fl_latitude = latitude data,
                    fl_longitude = longitude data \<rparr>,
                fp_details =
                  \<lparr> fd_sqm = sqm data,
                    fd_rooms = rooms data,
                    fd_bedrooms = bedrooms data,
                    fd_bathrooms = bathrooms data,
                    fd_yearBuilt = yearBuilt data,
                    fd_gardenSqm = plotSqm data,
                    fd_parking = hasParking data \<rparr>,
                fp_features =
                  (case or_null (energyLabel data) of
                     None \<Rightarrow> []
                   | Some l \<Rightarrow> [str ''Energy Label: '' @ l]),
                fp_images = images data,
                fp_description = Some (description data),
                fp_scrapedAt = scrapedAt data \<rparr>))))"

section \<open>The normalizer of the HTML scraper\<close>

text \<open>
  \<open>PageListing\<close>: the identifier is a string, the other properties may be missing, and the
  price, the area and the room counts are a string or a number.
\<close>

datatype text_or_number = Text jsstring | Number number

record PageListing =
  pl_id :: jsstring
  pl_title :: "jsstring option"
  pl_price :: "text_or_number option"
  pl_address :: "jsstring option"
  pl_sqm :: "text_or_number option"
  pl_rooms :: "text_or_number option"
  pl_bedrooms :: "text_or_number option"
  pl_link :: "jsstring option"
  pl_image :: "jsstring option"

fun truthy_text_or_number :: "text_or_number \<Rightarrow> bool" where
  "truthy_text_or_number (Text s) = truthy_string s"
| "truthy_text_or_number (Number n) = truthy_number n"

text \<open>
  \<open>typeof x === 'string' ? x : String(x || '')\<close>. The conversion \<open>String\<close> of a number to
  its decimal text is a built-in and a parameter here, \<open>toStr\<close>.
\<close>

fun asText :: "(number \<Rightarrow> jsstring) \<Rightarrow> text_or_number option \<Rightarrow> jsstring" where
  "asText toStr None = []"
| "asText toStr (Some (Text s)) = s"
| "asText toStr (Some (Number n)) = (if truthy_number n then toStr n else [])"

definition parsePrice :: "jsstring \<Rightarrow> number option" where
  "parsePrice priceText =
     (if \<not> truthy_string priceText then None
      else
        (let cleaned = replaceFirst 44 46
               (filter (\<lambda>c. \<not> (c = 8364 \<or> isWhiteSpace c \<or> c = 46)) priceText);
             num = parseInt cleaned
         in if num = NaN then None else Some num))"

definition determinePriceUnit :: "jsstring \<Rightarrow> PriceUnit" where
  "determinePriceUnit priceText =
     (if \<not> truthy_string priceText then total
      else if js_includes (toLowerCase priceText) (str ''per maand'')
              \<or> js_includes (toLowerCase priceText) (str ''/maand'')
      then per_month else total)"

text \<open>
  \<open>text.match(/(\d+)\s*m[\<twosuperior>2]/i)\<close>, with the superscript two (code unit 178) or the
  digit two after the letter m of either case. At a digit, the pattern matches when the
  whole run of digits is followed by white space, the letter and the two; the first
  position from the left with a match gives the digits from there.
\<close>

definition sqmAt :: "jsstring \<Rightarrow> jsstring option" where
  "sqmAt s =
     (case dropWhile isWhiteSpace (dropWhile isDigit s) of
        m # x # rest \<Rightarrow>
          if (m = 109 \<or> m = 77) \<and> (x = 178 \<or> x = 50) then Some (takeWhile isDigit s) else None
      | _ \<Rightarrow> None)"

fun matchSqm :: "jsstring \<Rightarrow> jsstring option" where
  "matchSqm [] = None"
| "matchSqm (c # cs) =
     (if isDigit c
      then (case sqmAt (c # cs) of Some ds \<Rightarrow> Some ds | None \<Rightarrow> matchSqm cs)
      else matchSqm cs)"

definition extractSqm :: "jsstring \<Rightarrow> number option" where
  "extractSqm text' =
     (if \<not> truthy_string text' then None
      else (case matchSqm text' of None \<Rightarrow> None | Some m \<Rightarrow> Some (parseInt m)))"

definition extractNumber :: "jsstring \<Rightarrow> number option" where
  "extractNumber text' =
     (if \<not> truthy_string text' then None
      else (case matchDigits text' of None \<Rightarrow> None | Some m \<Rightarrow> Some (parseInt m)))"

definition detectPropertyType :: "jsstring \<Rightarrow> jsstring \<Rightarrow> jsstring" where
  "detectPropertyType url' title' =
     (let combined = toLowerCase (url' @ str '' '' @ title')
      in if js_includes combined (str ''appartement'') \<or> js_includes combined (str ''apartment'')
         then str ''apartment''
         else if js_includes combined (str ''huis'') \<or> js_includes combined (str ''woning'')
                 \<or> js_includes combined (str ''house'')
         then str ''house''
         else if js_includes combined (str ''studio'') then str ''studio''
         else if js_includes combined (str ''kamer'') \<or> js_includes combined (str ''room'')
         then str ''room''
         else if js_includes combined (str ''villa'') then str ''villa''
         else if js_includes combined (str ''tuin'') \<or> js_includes combined (str ''garden'')
         then str ''land''
         else str ''property'')"

text \<open>
  \<open>normalizeProperty\<close>. It reads the clock (\<open>Date.now()\<close>, \<open>new Date()\<close>) and, for a listing
  without an identifier, \<open>Math.random()\<close>: the arguments \<open>now\<close> and \<open>rnd\<close>.
\<close>

definition normalizeProperty ::
  "(number \<Rightarrow> jsstring) \<Rightarrow> int \<Rightarrow> number \<Rightarrow> PageListing \<Rightarrow> TransactionType
     \<Rightarrow> FundaProperty option" where
  "normalizeProperty toStr now rnd listing transactionType' =
     (if \<not> truthy_opt truthy_string (pl_title listing)
         \<and> \<not> truthy_opt truthy_text_or_number (pl_price listing)
      then None
      else
        (let url' = or_default (pl_link listing) (str ''#'');
             price' = parsePrice (asText toStr (pl_price listing));
             priceUnit = determinePriceUnit (asText toStr (pl_price listing));
             sqm' = extractSqm (asText toStr (pl_sqm listing));
             rooms' = extractNumber (asText toStr (pl_rooms listing));
             bedrooms' = extractNumber (asText toStr (pl_bedrooms listing))
         in Some
              \<lparr> fp_id = (if truthy_string (pl_id listing) then pl_id listing
                         else str ''funda-'' @ toStr (Fin (of_int now)) @ str ''-'' @ toStr rnd),
                fp_source = str ''funda-netherlands'',
                fp_url = (if prefix (str ''http'') url' then url'
                          else str ''https://www.funda.nl'' @ url'),
                fp_title = or_default (pl_title listing)
                             (or_default (pl_address listing) (str ''Property'')),
                fp_price = price',
                fp_currency = str ''EUR'',
                fp_priceUnit = priceUnit,
                fp_propertyType = detectPropertyType url' (or_default (pl_title listing) []),
                fp_transactionType = transactionType',
                fp_status = str ''available'',
                fp_location =
                  \<lparr> fl_address = pl_address listing,
                    fl_city = str ''Netherlands'',
                    fl_country = str ''Netherlands'',
                    fl_postalCode = None,
                    fl_latitude = None,
                    fl_longitude = None \<rparr>,
                fp_details =
                  \<lparr> fd_sqm = sqm',
                    fd_rooms = rooms',
                    fd_bedrooms = bedrooms',
                    fd_bathrooms = None,
                    fd_yearBuilt = None,
                    fd_gardenSqm = None,
                    fd_parking = None \<rparr>,
                fp_features = [],
                fp_images = (case or_null (pl_image listing) of None \<Rightarrow> [] | Some i \<Rightarrow> [i]),
                fp_description = None,
                fp_scrapedAt = now \<rparr>))"

section \<open>The rate-limited client and the batch loops\<close>

text \<open>
  What lies outside the code is a parameter. Time is the reading of \<open>Date.now()\<close>, in
  whole milliseconds; it changes while a request or a timer is awaited and stands still
  otherwise. The transport answers a request for an identifier with a network error or
  with a status and a body (a missing or empty body is \<open>None\<close>); between the start of the
  request and its answer the reading changes by \<open>duration\<close>, which may depend on the
  moment of the request. A timer fires by the clock of the runtime, not by \<open>Date.now()\<close>:
  when it fires, the reading has changed by the delay of the timer plus \<open>lag\<close>, which is
  negative for a timer that fires early on that reading. Nothing is assumed of \<open>duration\<close>
  and \<open>lag\<close> here; what a statement needs of them is its hypothesis.
\<close>

datatype http_result = NetworkError | Reply nat "FundaListingResponse option"

record 'id env =
  reply :: "'id \<Rightarrow> http_result"
  duration :: "'id \<Rightarrow> int \<Rightarrow> int"
  lag :: "int \<Rightarrow> int"

text \<open>
  The delay that \<open>setTimeout\<close> of the runtime takes for the delay it is given: a delay
  below 1 or above \<open>2^31 - 1\<close> milliseconds is set to 1.
\<close>

definition timerDelay :: "int \<Rightarrow> int" where
  "timerDelay delay = (if 1 \<le> delay \<and> delay \<le> 2147483647 then delay else 1)"

text \<open>The mutable fields of \<open>FundaAPIClient\<close>, with the clock it reads.\<close>

record client =
  clock :: int
  lastRequestTime :: int
  requestCount :: nat

text \<open>\<open>this.config.delayMs || this.minDelayMs\<close>: a missing or zero delay gives 500.\<close>

definition delayNeeded :: "int option \<Rightarrow> int" where
  "delayNeeded delayMs = (case delayMs of None \<Rightarrow> 500 | Some d \<Rightarrow> if d = 0 then 500 else d)"

text \<open>
  \<open>rateLimit\<close>: one timer for what is left of the delay, and the reading of the clock
  after it, whatever it is, becomes the time of the last request.
\<close>

definition rateLimit :: "'id env \<Rightarrow> int option \<Rightarrow> client \<Rightarrow> client" where
  "rateLimit e delayMs c =
     (let now = clock c;
          timeSinceLastRequest = now - lastRequestTime c;
          c1 = (if timeSinceLastRequest < delayNeeded delayMs
                then (let delay = delayNeeded delayMs - timeSinceLastRequest
                      in c\<lparr>clock := now + timerDelay delay + lag e now\<rparr>)
                else c)
      in c1\<lparr>lastRequestTime := clock c1\<rparr>)"

text \<open>
  \<open>getListingByTinyId\<close>. What the request throws is the network error of the transport,
  which the \<open>catch\<close> turns into \<open>null\<close>.
\<close>

definition getListingByTinyId ::
  "'id env \<Rightarrow> int option \<Rightarrow> 'id \<Rightarrow> client \<Rightarrow> FundaListingResponse option \<times> client" where
  "getListingByTinyId e delayMs tinyId' c =
     (let c1 = rateLimit e delayMs c;
          c2 = c1\<lparr>requestCount := requestCount c1 + 1\<rparr>;
          c3 = c2\<lparr>clock := clock c2 + duration e tinyId' (clock c2)\<rparr>
      in case reply e tinyId' of
           NetworkError \<Rightarrow> (None, c3)
         | Reply status' body \<Rightarrow> (if status' \<noteq> 200 then (None, c3) else (body, c3)))"

text \<open>\<open>FundaAPIClient.getListingsBatch\<close>: the loop with its two arrays.\<close>

fun getListingsBatch_loop ::
  "'id env \<Rightarrow> int option \<Rightarrow> 'id list \<Rightarrow> FundaListingResponse list \<Rightarrow> 'id list \<Rightarrow> client
     \<Rightarrow> FundaListingResponse list \<times> 'id list \<times> client" where
  "getListingsBatch_loop e delayMs [] results failed c = (results, failed, c)"
| "getListingsBatch_loop e delayMs (tinyId' # rest) results failed c =
     (case getListingByTinyId e delayMs tinyId' c of
        (Some listing, c') \<Rightarrow> getListingsBatch_loop e delayMs rest (results @ [listing]) failed c'
      | (None, c') \<Rightarrow> getListingsBatch_loop e delayMs rest results (failed @ [tinyId']) c')"

definition getListingsBatch ::
  "'id env \<Rightarrow> int option \<Rightarrow> 'id list \<Rightarrow> client
     \<Rightarrow> FundaListingResponse list \<times> 'id list \<times> client" where
  "getListingsBatch e delayMs tinyIds c = getListingsBatch_loop e delayMs tinyIds [] [] c"

text \<open>
  \<open>FundaRESTAPIScraper.parseListingResponse\<close>: the body is parsed by the client and
  normalized inside a \<open>try\<close>, and the \<open>catch\<close> returns \<open>null\<close> for whatever either of them
  throws.
\<close>

definition scraper_parseListingResponse ::
  "int \<Rightarrow> FundaListingResponse \<Rightarrow> FundaProperty option" where
  "scraper_parseListingResponse now rawData =
     (case bindE (parseListingResponse now rawData) normalizePropertyFromAPI of
        Inl e \<Rightarrow> None
      | Inr property \<Rightarrow> property)"

text \<open>
  \<open>FundaRESTAPIScraper.fetchListing\<close>; the clock is read for \<open>scrapedAt\<close> when the body has
  arrived. Its own \<open>catch\<close>, and the one of the loop below, have nothing left to catch:
  the two calls in the \<open>try\<close> return a value in every case.
\<close>

definition fetchListing ::
  "'id env \<Rightarrow> int option \<Rightarrow> 'id \<Rightarrow> client \<Rightarrow> FundaProperty option \<times> client" where
  "fetchListing e delayMs tinyId' c =
     (case getListingByTinyId e delayMs tinyId' c of
        (None, c') \<Rightarrow> (None, c')
      | (Some rawData, c') \<Rightarrow> (scraper_parseListingResponse (clock c') rawData, c'))"

text \<open>
  \<open>FundaRESTAPIScraper.fetchListingsBatch\<close>. The source returns \<open>results\<close> and hands the
  length of \<open>failed\<close> and the duration to the logger; the model returns all of them.
\<close>

record 'id batch =
  results :: "FundaProperty list"
  failed :: "'id list"
  durationMs :: int
  final :: client

fun fetchListingsBatch_loop ::
  "'id env \<Rightarrow> int option \<Rightarrow> 'id list \<Rightarrow> FundaProperty list \<Rightarrow> 'id list \<Rightarrow> client
     \<Rightarrow> FundaProperty list \<times> 'id list \<times> client" where
  "fetchListingsBatch_loop e delayMs [] results' failed' c = (results', failed', c)"
| "fetchListingsBatch_loop e delayMs (tinyId' # rest) results' failed' c =
     (case fetchListing e delayMs tinyId' c of
        (Some property, c') \<Rightarrow>
          fetchListingsBatch_loop e delayMs rest (results' @ [property]) failed' c'
      | (None, c') \<Rightarrow>
          fetchListingsBatch_loop e delayMs rest results' (failed' @ [tinyId']) c')"

definition fetchListingsBatch :: "'id env \<Rightarrow> int option \<Rightarrow> 'id list \<Rightarrow> client \<Rightarrow> 'id batch" where
  "fetchListingsBatch e delayMs tinyIds c =
     (let startTime = clock c;
          (rs, fs, c') = fetchListingsBatch_loop e delayMs tinyIds [] [] c
      in \<lparr> results = rs, failed = fs, durationMs = clock c' - startTime, final = c' \<rparr>)"

section \<open>Notions of the specification and sample data\<close>

subsection \<open>The batch, as the specification describes it\<close>

text \<open>The effect of one request on the client: the state after \<open>getListingByTinyId\<close>.\<close>

definition step :: "'id env \<Rightarrow> int option \<Rightarrow> 'id \<Rightarrow> client \<Rightarrow> client" where
  "step e delayMs i c = snd (getListingByTinyId e delayMs i c)"

text \<open>The raw record the source serves for an identifier, if the fetch succeeds.\<close>

definition served :: "'id env \<Rightarrow> 'id \<Rightarrow> FundaListingResponse option" where
  "served e i =
     (case reply e i of
        NetworkError \<Rightarrow> None
      | Reply st body \<Rightarrow> if st = 200 then body else None)"

text \<open>The normalized output for one identifier whose body has arrived at time \<open>t\<close>.\<close>

definition normalizedAt :: "'id env \<Rightarrow> 'id \<Rightarrow> int \<Rightarrow> FundaProperty option" where
  "normalizedAt e i t =
     (case served e i of
        None \<Rightarrow> None
      | Some rawData \<Rightarrow> scraper_parseListingResponse t rawData)"

text \<open>The moments at which the bodies of a run arrive, one for each identifier.\<close>

fun arrivals :: "'id env \<Rightarrow> int option \<Rightarrow> 'id list \<Rightarrow> client \<Rightarrow> int list" where
  "arrivals e delayMs [] c = []"
| "arrivals e delayMs (i # ids) c =
     clock (step e delayMs i c) # arrivals e delayMs ids (step e delayMs i c)"

text \<open>The identifier that \<open>normalizeProperty\<close> makes up for a listing without one.\<close>

definition generated_id :: "(number \<Rightarrow> jsstring) \<Rightarrow> int \<Rightarrow> number \<Rightarrow> jsstring" where
  "generated_id toStr now rnd = str ''funda-'' @ toStr (Fin (of_int now)) @ str ''-'' @ toStr rnd"

text \<open>A record without its time stamp.\<close>

definition strip :: "FundaProperty \<Rightarrow> FundaProperty" where
  "strip p = p\<lparr>fp_scrapedAt := 0\<rparr>"

text \<open>A raw record with a title that is not empty, or with a price that is not zero.\<close>

definition has_title_or_price :: "FundaListingResponse \<Rightarrow> bool" where
  "has_title_or_price rawData =
     ((case AddressDetails rawData of
         None \<Rightarrow> False
       | Some a \<Rightarrow> (case Title a of None \<Rightarrow> False | Some t \<Rightarrow> t \<noteq> []))
      \<or> (case NumericSellingPrice rawData of
            None \<Rightarrow> False
          | Some NaN \<Rightarrow> False
          | Some (Fin q) \<Rightarrow> q \<noteq> 0
          | Some PosInf \<Rightarrow> True
          | Some NegInf \<Rightarrow> True))"

text \<open>A value that is there and is no string, and one that cannot even be made a text.\<close>

fun is_nontext :: "kvalue option \<Rightarrow> bool" where
  "is_nontext (Some (NonStr t)) = True"
| "is_nontext v = False"

fun unprintable :: "kvalue option \<Rightarrow> bool" where
  "unprintable (Some (NonStr None)) = True"
| "unprintable v = False"

text \<open>
  The raw records on which the parsing of the characteristics throws: one of the seven
  values that are handled with a method of strings is no string, or the year of
  construction cannot be made a text.
\<close>

definition sections_throw :: "FundaListingResponse \<Rightarrow> bool" where
  "sections_throw rawData =
     (let sections = (case KenmerkSections rawData of None \<Rightarrow> [] | Some ss \<Rightarrow> ss)
      in is_nontext (resolve_spec sections (str ''overdracht'') (str ''overdracht-vraagprijsperm2''))
         \<or> unprintable (resolve_spec sections (str ''bouw'') (str ''bouw-bouwjaar''))
         \<or> is_nontext (resolve_spec sections (str ''afmetingen'')
                          (str ''afmetingen-gebruiksoppervlakten-wonen''))
         \<or> is_nontext (resolve_spec sections (str ''afmetingen'')
                          (str ''afmetingen-gebruiksoppervlakten-tuin''))
         \<or> is_nontext (resolve_spec sections (str ''indeling'') (str ''indeling-kamers''))
         \<or> is_nontext (resolve_spec sections (str ''indeling'') (str ''indeling-slaapkamers''))
         \<or> is_nontext (resolve_spec sections (str ''indeling'') (str ''indeling-badkamers''))
         \<or> is_nontext (resolve_spec sections (str ''energie'') (str ''energie-energielabel'')))"

text \<open>The raw records whose type label (\<open>bouw-soortobject\<close>) is a value that is no string.\<close>

definition label_is_nontext :: "FundaListingResponse \<Rightarrow> bool" where
  "label_is_nontext rawData =
     is_nontext
       (resolve_spec (case KenmerkSections rawData of None \<Rightarrow> [] | Some ss \<Rightarrow> ss)
          (str ''bouw'') (str ''bouw-soortobject''))"

text \<open>
  The raw records of which the scraper makes a record: nothing is thrown on the way, and
  there is a title or a price.
\<close>

definition yields_record :: "FundaListingResponse \<Rightarrow> bool" where
  "yields_record rawData =
     (has_title_or_price rawData \<and> \<not> sections_throw rawData \<and> \<not> label_is_nontext rawData)"

text \<open>The identifiers whose fetch succeeds and of whose body the scraper makes a record.\<close>

definition accepted :: "'id env \<Rightarrow> 'id \<Rightarrow> bool" where
  "accepted e i =
     (case served e i of None \<Rightarrow> False | Some rawData \<Rightarrow> yields_record rawData)"

text \<open>The parsed records on which \<open>transformToStandard\<close> throws.\<close>

definition transform_throws :: "FundaPropertyData \<Rightarrow> bool" where
  "transform_throws data =
     (is_nontext (dutchPropertyType data)
      \<or> unprintable (parkingType data)
      \<or> unprintable (constructionType data))"

subsection \<open>The classifier, as the specification describes it\<close>

text \<open>
  The ordered table of terms and categories; the first row with a term that occurs in the
  lower-cased labels decides, and with no such row the category is \<open>property\<close>. The two
  labels are joined with one space between them.
\<close>

definition type_table :: "(jsstring list \<times> jsstring) list" where
  "type_table =
     [([str ''appartement'', str ''apartment''], str ''apartment''),
      ([str ''woning'', str ''eengezinswoning'', str ''huis''], str ''house''),
      ([str ''villa''], str ''villa''),
      ([str ''bungalow''], str ''bungalow''),
      ([str ''studio''], str ''studio''),
      ([str ''kamer''], str ''room''),
      ([str ''tuin'', str ''grond''], str ''land''),
      ([str ''nieuwbouw''], str ''new-construction''),
      ([str ''boerderij''], str ''farm'')]"

definition first_in ::
  "(jsstring list \<times> jsstring) list \<Rightarrow> jsstring \<Rightarrow> (jsstring list \<times> jsstring) option" where
  "first_in table text' = find (\<lambda>row. list_ex (js_includes text') (fst row)) table"

definition category_in :: "(jsstring list \<times> jsstring) list \<Rightarrow> jsstring \<Rightarrow> jsstring" where
  "category_in table text' =
     (case first_in table text' of None \<Rightarrow> str ''property'' | Some row \<Rightarrow> snd row)"

definition first_match :: "jsstring \<Rightarrow> (jsstring list \<times> jsstring) option" where
  "first_match combined = first_in type_table combined"

definition classify_spec :: "jsstring option \<Rightarrow> jsstring option \<Rightarrow> jsstring" where
  "classify_spec primaryLabel secondaryLabel =
     (case first_match
             (toLowerCase (or_default primaryLabel [] @ str '' '' @ or_default secondaryLabel []))
      of None \<Rightarrow> str ''property'' | Some row \<Rightarrow> snd row)"

text \<open>
  The classification that \<open>normalizePropertyFromAPI\<close> makes in place has two tables of its
  own: one for the Dutch label, which decides alone when it is there and not empty, and
  one of English terms for the object type, which is looked at only without a Dutch
  label. Neither has room, ground or farm terms.
\<close>

definition dutch_table :: "(jsstring list \<times> jsstring) list" where
  "dutch_table =
     [([str ''appartement''], str ''apartment''),
      ([str ''huis'', str ''woning''], str ''house''),
      ([str ''studio''], str ''studio''),
      ([str ''villa''], str ''villa''),
      ([str ''bungalow''], str ''bungalow''),
      ([str ''tuin''], str ''land''),
      ([str ''nieuwbouw''], str ''new-construction'')]"

definition object_table :: "(jsstring list \<times> jsstring) list" where
  "object_table =
     [([str ''apartment''], str ''apartment''),
      ([str ''house''], str ''house''),
      ([str ''studio''], str ''studio''),
      ([str ''villa''], str ''villa'')]"

definition classify_in_place :: "jsstring option \<Rightarrow> jsstring \<Rightarrow> jsstring" where
  "classify_in_place dutchLabel objectLabel =
     (case dutchLabel of
        Some d \<Rightarrow>
          if d \<noteq> [] then category_in dutch_table (toLowerCase d)
          else category_in object_table (toLowerCase objectLabel)
      | None \<Rightarrow> category_in object_table (toLowerCase objectLabel))"

subsection \<open>Sample data\<close>

text \<open>The JSON object with no property at all.\<close>

definition empty_listing :: FundaListingResponse where
  "empty_listing =
     \<lparr> Identifiers = None, NumericSellingPrice = None, KenmerkSections = None, FullUrl = None,
       Description = None, AddressDetails = None, Coordinates = None, PhotoIds = None,
       IsSoldOrRented = None, ObjectType = None, OfferingType = None, PublicationDate = None,
       ObjectInsights = None \<rparr>"

text \<open>A house for sale; its price per square metre reads \<open>\<euro> 3.750\<close>.\<close>

definition example_listing :: FundaListingResponse where
  "example_listing =
     \<lparr> Identifiers = Some \<lparr> GlobalId = Some (Fin 7654321), TinyId = Some (str ''43267698'') \<rparr>,
       NumericSellingPrice = Some (Fin 450000),
       KenmerkSections = Some
         [KenmerkSection (str ''overdracht'')
            (Some [Some (Kenmerk (Some (str ''overdracht-vraagprijsperm2''))
                           (Some (Str ([8364, 32] @ str ''3.750''))) None)]),
          KenmerkSection (str ''bouw'')
            (Some [Some (Kenmerk (Some (str ''bouw-soortobject''))
                           (Some (Str (str ''Eengezinswoning''))) None)])],
       FullUrl = Some (str ''https://www.funda.nl/detail/koop/amsterdam/huis-ijdok-37/43267698/''),
       Description = None,
       AddressDetails = Some
         \<lparr> Title = Some (str ''IJdok 37''), City = Some (str ''Amsterdam''),
           Province = Some (str ''Noord-Holland''), Country = None,
           HouseNumber = Some (str ''37''), PostCode = Some (str ''1013 MM'') \<rparr>,
       Coordinates = None, PhotoIds = None,
       IsSoldOrRented = Some False, ObjectType = Some (str ''House''),
       OfferingType = Some (str ''Sale''), PublicationDate = Some (str ''2024-01-15''),
       ObjectInsights = None \<rparr>"

text \<open>The record that \<open>parseListingResponse\<close> makes of the sample house at the time 0.\<close>

definition example_data :: FundaPropertyData where
  "example_data =
     \<lparr> tinyId = str ''43267698'', globalId = Fin 7654321,
       url = str ''https://www.funda.nl/detail/koop/amsterdam/huis-ijdok-37/43267698/'',
       title = str ''IJdok 37'', address = str ''IJdok 37'', postalCode = str ''1013 MM'',
       city = str ''Amsterdam'', province = str ''Noord-Holland'', country = str ''Netherlands'',
       latitude = None, longitude = None, price = Some (Fin 450000), currency = str ''EUR'',
       pricePerSqm = Some (str ''3750''), sqm = None, plotSqm = None, rooms = None,
       bedrooms = None, bathrooms = None, yearBuilt = None, objectType = str ''House'',
       dutchPropertyType = Some (Str (str ''Eengezinswoning'')), constructionType = None,
       energyLabel = None, parkingType = None, hasParking = None, description = [],
       images = [], views = Fin 0, saves = Fin 0, transactionType = Sale,
       publicationDate = Some (str ''2024-01-15''), isSoldOrRented = False, scrapedAt = 0 \<rparr>"

text \<open>The same house with a price per square metre that is no number.\<close>

definition unparsed_price_data :: FundaPropertyData where
  "unparsed_price_data = example_data\<lparr>pricePerSqm := Some (str ''op aanvraag'')\<rparr>"

text \<open>The same record labelled as a room.\<close>

definition kamer_data :: FundaPropertyData where
  "kamer_data = example_data\<lparr>dutchPropertyType := Some (Str (str ''Kamer''))\<rparr>"

text \<open>
  The sample house with the number 7 for its type label, in an entry of a nested list,
  where the declared type is \<open>any\<close>.
\<close>

definition numeric_label_listing :: FundaListingResponse where
  "numeric_label_listing =
     example_listing
       \<lparr>KenmerkSections := Some
          [KenmerkSection (str ''bouw'')
             (Some [Some (Kenmerk (Some (str ''groep'')) None
                      (Some [Some (Kenmerk (Some (str ''bouw-soortobject''))
                                     (Some (NonStr (Some (str ''7'')))) None)]))])]\<rparr>"

text \<open>A source that serves that record for every identifier, at once.\<close>

definition numeric_label_env :: "nat env" where
  "numeric_label_env =
     \<lparr> reply = (\<lambda>i. Reply 200 (Some numeric_label_listing)), duration = (\<lambda>i t. 0),
       lag = (\<lambda>t. 0) \<rparr>"

text \<open>
  A source that serves the sample house at once, with a timer that fires one millisecond
  early on the reading of \<open>Date.now()\<close>.
\<close>

definition early_env :: "nat env" where
  "early_env =
     \<lparr> reply = (\<lambda>i. Reply 200 (Some example_listing)), duration = (\<lambda>i t. 0),
       lag = (\<lambda>t. - 1) \<rparr>"

text \<open>A source that serves the empty object for every identifier, at once.\<close>

definition blank_env :: "nat env" where
  "blank_env =
     \<lparr> reply = (\<lambda>i. Reply 200 (Some empty_listing)), duration = (\<lambda>i t. 0), lag = (\<lambda>t. 0) \<rparr>"

text \<open>A source that fails for the identifier 102 and serves the sample house otherwise.\<close>

definition flaky_env :: "nat env" where
  "flaky_env =
     \<lparr> reply = (\<lambda>i. if i = 102 then NetworkError else Reply 200 (Some example_listing)),
       duration = (\<lambda>i t. 0), lag = (\<lambda>t. 0) \<rparr>"

text \<open>
  A section with a group before a plain entry of the same list; the entry nested in the
  group and the plain entry have the same \<open>Id\<close>.
\<close>

definition nested_sections :: "kenmerk_section list" where
  "nested_sections =
     [KenmerkSection (str ''bouw'')
        (Some [Some (Kenmerk (Some (str ''groep'')) None
                       (Some [Some (Kenmerk (Some (str ''bouw-bouwjaar''))
                                      (Some (Str (str ''1930''))) None)])),
               Some (Kenmerk (Some (str ''bouw-bouwjaar'')) (Some (Str (str ''1998''))) None)]),
      KenmerkSection (str ''bouw'')
        (Some [Some (Kenmerk (Some (str ''bouw-soortbouw''))
                       (Some (Str (str ''Bestaande bouw''))) None)])]"

text \<open>A section with a \<open>null\<close> in a nested list, after the entry that is asked for.\<close>

definition malformed_sections :: "kenmerk_section list" where
  "malformed_sections =
     [KenmerkSection (str ''bouw'')
        (Some [Some (Kenmerk (Some (str ''bouw-bouwjaar'')) (Some (Str (str ''1930''))) None),
               Some (Kenmerk (Some (str ''groep'')) None (Some [None]))])]"

definition idle :: client where
  "idle = \<lparr> clock = 1000, lastRequestTime = 0, requestCount = 0 \<rparr>"

section \<open>Proofs\<close>

subsection \<open>Results that may be an error\<close>

lemma bindE_Inr [simp]: "bindE (Inr v) f = f v"
  by (simp add: bindE_def)

lemma bindE_Inl [simp]: "bindE (Inl e) f = Inl e"
  by (simp add: bindE_def)

lemma bindE_if: "bindE (if c then Inl e else Inr v) f = (if c then Inl e else f v)"
  by simp

lemma error_is_TypeError: "(e :: error) = TypeError"
  by (cases e)

lemma not_Inl_TypeError: "(r \<noteq> Inl TypeError) = (\<exists>v. r = Inr v)"
  by (cases r) (simp_all add: error_is_TypeError)

lemma on_string_if:
  "on_string f v =
     (if is_nontext v then Inl TypeError
      else Inr (case v of Some (Str s) \<Rightarrow> f s | _ \<Rightarrow> None))"
  by (cases "(f, v)" rule: on_string.cases) simp_all

lemma to_text_if: "to_text v = (if unprintable (Some v) then Inl TypeError else Inr (printed v))"
  by (cases v rule: to_text.cases) simp_all

lemma on_text_if:
  "on_text f v = (if unprintable v then Inl TypeError else Inr (map_option (\<lambda>x. f (printed x)) v))"
  by (cases v) (simp_all add: to_text_if)

subsection \<open>The attribute tree\<close>

lemma flatten_preorder:
  "flatten list flatList =
     (if entries_ok list then Inr (flatList @ entries_preorder list) else Inl TypeError)"
proof (induction list flatList rule: flatten.induct)
  case (1 flatList)
  show ?case by (simp add: entries_ok_def entries_preorder_def)
next
  case (2 list flatList)
  show ?case by (simp add: entries_ok_def)
next
  case (3 item list flatList)
  obtain i v k where item: "item = Kenmerk i v k"
    by (cases item)
  show ?case
  proof (cases k)
    case None
    with 3 item show ?thesis by (simp add: entries_ok_def entries_preorder_def)
  next
    case (Some sub)
    with 3 item show ?thesis by (simp add: entries_ok_def entries_preorder_def)
  qed
qed

lemma value_or_null_cases:
  "value_or_null v =
     (case v of
        None \<Rightarrow> None
      | Some (Str s) \<Rightarrow> if s = [] then None else Some (Str s)
      | Some (NonStr t) \<Rightarrow> Some (NonStr t))"
  by (cases v rule: value_or_null.cases) (simp_all split: kvalue.splits)

lemma parseKenmerkValue_resolve:
  "parseKenmerkValue sections sectionId fieldId = resolve_spec sections sectionId fieldId"
proof (cases "find (\<lambda>s. section_Id s = sectionId) sections")
  case None
  then show ?thesis
    by (simp add: parseKenmerkValue_def resolve_spec_def)
next
  case (Some sec)
  show ?thesis
  proof (cases "section_KenmerkenList sec")
    case None
    with Some show ?thesis
      by (simp add: parseKenmerkValue_def resolve_spec_def flattened_def)
  next
    case inner: (Some list)
    with Some show ?thesis
      by (simp add: parseKenmerkValue_def resolve_spec_def flattened_def flatten_preorder
          value_or_null_cases split: option.splits kvalue.splits)
  qed
qed

text \<open>
  C5. For every list of sections and every pair of a section id and a field id,
  \<open>parseKenmerkValue\<close> takes the first section with that id, flattens its entries depth
  first with a parent before its children, and returns the value of the first entry of
  that order with the field id; it returns nothing when no section or no entry matches,
  when the section has no list or a malformed one (a \<open>null\<close> where an entry should be),
  and when the entry found has no value or an empty one. It is a total function: what is
  thrown inside is caught, and nothing is thrown.
\<close>

theorem parseKenmerkValue_resolves:
  "parseKenmerkValue sections sectionId fieldId = resolve_spec sections sectionId fieldId"
  by (rule parseKenmerkValue_resolve)

lemma nested_example:
  "parseKenmerkValue nested_sections (str ''bouw'') (str ''bouw-bouwjaar'') = Some (Str (str ''1930''))
   \<and> parseKenmerkValue nested_sections (str ''bouw'') (str ''bouw-soortbouw'') = None
   \<and> parseKenmerkValue nested_sections (str ''energie'') (str ''bouw-bouwjaar'') = None
   \<and> parseKenmerkValue [] (str ''bouw'') (str ''bouw-bouwjaar'') = None
   \<and> parseKenmerkValue malformed_sections (str ''bouw'') (str ''bouw-bouwjaar'') = None"
  by (simp add: parseKenmerkValue_def nested_sections_def malformed_sections_def str_def)

lemma map_sum_bindE: "map_sum id g (bindE r f) = bindE r (\<lambda>v. map_sum id g (f v))"
  by (cases r) simp_all

lemma bindE_const:
  "bindE r (\<lambda>v. Inr c) = (if r = Inl TypeError then Inl TypeError else Inr c)"
  by (cases r) (simp_all add: error_is_TypeError)

lemma bindE_Inl_iff:
  "(bindE r f = Inl TypeError) = (r = Inl TypeError \<or> (\<exists>v. r = Inr v \<and> f v = Inl TypeError))"
  by (cases r) (simp_all add: error_is_TypeError)

subsection \<open>Truthiness and defaults\<close>

lemma or_default_empty: "(or_default v [] = []) = (\<not> truthy_opt truthy_string v)"
  by (cases v) (simp_all add: truthy_string_def)

lemma or_default_falsy: "\<not> truthy_opt truthy_string v \<Longrightarrow> or_default v [] = []"
  by (simp add: or_default_empty)

lemma truthy_number_or_null:
  "truthy_opt truthy_number (number_or_null v) = truthy_opt truthy_number v"
  by (cases v) simp_all

lemma or_null_truthy: "truthy_opt truthy_string v \<Longrightarrow> or_null v = v"
  by (cases v) (simp_all add: truthy_string_def)

lemma or_null_falsy: "\<not> truthy_opt truthy_string v \<Longrightarrow> or_null v = None"
  by (cases v) (simp_all add: truthy_string_def)

lemma value_or_null_truthy: "truthy_opt truthy_kvalue v \<Longrightarrow> value_or_null v = v"
  by (cases v) simp_all

lemma value_or_null_falsy: "\<not> truthy_opt truthy_kvalue v \<Longrightarrow> value_or_null v = None"
  by (cases v) simp_all

lemma number_or_null_truthy: "truthy_opt truthy_number v \<Longrightarrow> number_or_null v = v"
  by (cases v) simp_all

lemma number_or_null_falsy: "\<not> truthy_opt truthy_number v \<Longrightarrow> number_or_null v = None"
  by (cases v) simp_all

subsection \<open>The fields of a parsed listing\<close>

lemma sections_Inl: "(parseKenmerkSections d = Inl TypeError) = sections_throw d"
  unfolding parseKenmerkSections_def sections_throw_def Let_def parseKenmerkValue_resolve
    on_string_if on_text_if bindE_if
  by simp

lemma parse_Inl: "(parseListingResponse now d = Inl TypeError) = sections_throw d"
  by (simp add: parseListingResponse_def Let_def bindE_Inl_iff sections_Inl)

lemma parse_title:
  "map_sum id title (parseListingResponse now d) =
     (if sections_throw d then Inl TypeError
      else Inr (or_default (field_of Title (AddressDetails d)) []))"
  by (simp add: parseListingResponse_def Let_def map_sum_bindE bindE_const sections_Inl)

lemma parse_price:
  "map_sum id price (parseListingResponse now d) =
     (if sections_throw d then Inl TypeError else Inr (number_or_null (NumericSellingPrice d)))"
  by (simp add: parseListingResponse_def Let_def map_sum_bindE bindE_const sections_Inl)

lemma parse_address:
  "map_sum id address (parseListingResponse now d) =
     (if sections_throw d then Inl TypeError
      else Inr (if truthy_opt truthy_string (field_of HouseNumber (AddressDetails d))
                then or_default (field_of Title (AddressDetails d)) [] else []))"
  by (simp add: parseListingResponse_def Let_def map_sum_bindE bindE_const sections_Inl)

lemma sections_label:
  "parseKenmerkSections d = Inr k \<Longrightarrow>
     k_dutchPropertyType k =
       resolve_spec (case KenmerkSections d of None \<Rightarrow> [] | Some ss \<Rightarrow> ss)
         (str ''bouw'') (str ''bouw-soortobject'')"
  unfolding parseKenmerkSections_def Let_def parseKenmerkValue_resolve on_string_if on_text_if
    bindE_if
  by (auto split: if_splits)

lemma parse_label:
  "map_sum id dutchPropertyType (parseListingResponse now d) =
     (if sections_throw d then Inl TypeError
      else Inr (resolve_spec (case KenmerkSections d of None \<Rightarrow> [] | Some ss \<Rightarrow> ss)
                  (str ''bouw'') (str ''bouw-soortobject'')))"
proof (cases "parseKenmerkSections d")
  case (Inl e)
  then have "sections_throw d"
    using sections_Inl [of d] error_is_TypeError [of e] by simp
  with Inl show ?thesis
    by (simp add: parseListingResponse_def error_is_TypeError [of e])
next
  case (Inr k)
  then have "\<not> sections_throw d"
    using sections_Inl [of d] by simp
  with Inr sections_label [OF Inr] show ?thesis
    by (simp add: parseListingResponse_def Let_def)
qed

lemma parse_stamp:
  "parseListingResponse t1 rawData =
     map_sum id (\<lambda>d. d\<lparr>scrapedAt := t1\<rparr>) (parseListingResponse t2 rawData)"
  by (cases "parseKenmerkSections rawData") (simp_all add: parseListingResponse_def Let_def)

lemma example_parse:
  "parseListingResponse t example_listing = Inr (example_data\<lparr>scrapedAt := t\<rparr>)"
proof -
  have k: "parseKenmerkSections example_listing =
      Inr \<lparr> k_pricePerSqm = Some (str ''3750''),
            k_dutchPropertyType = Some (Str (str ''Eengezinswoning'')),
            k_constructionType = None, k_yearBuilt = None, k_sqm = None, k_plotSqm = None,
            k_rooms = None, k_bedrooms = None, k_bathrooms = None, k_energyLabel = None,
            k_parkingType = None, k_hasParking = None \<rparr>"
    unfolding parseKenmerkSections_def example_listing_def Let_def
    by (simp add: parseKenmerkValue_def str_def cleanPricePerM2_def isWhiteSpace_def)
  have l: "toLowerCase (str ''Sale'') = str ''sale''"
    by (simp add: toLowerCase_def lower_unit_def str_def)
  show ?thesis
    unfolding parseListingResponse_def k bindE_Inr
    by (simp add: example_listing_def example_data_def Let_def field_of_def number_or_def
        extractImages_def l) (simp add: str_def parseInt_def isWhiteSpace_def isDigit_def
        digitsValue_def truthy_string_def)
qed

text \<open>
  C10. For every API response, \<open>parseListingResponse\<close> throws when the parsing of the
  characteristics does, and otherwise the \<open>address\<close> it produces is the \<open>Title\<close> of the
  address details when \<open>HouseNumber\<close> is a string that is not empty, and the empty string
  when the house number, the title or the address details are missing or the house number
  is empty. The house number itself is never put into the field: for any address details
  \<open>a\<close> and any house number \<open>h\<close> the result is the title of \<open>a\<close> or empty, whatever the
  characters of \<open>h\<close> are.
\<close>

theorem parseListingResponse_address:
  "map_sum id address (parseListingResponse now d) =
     (if sections_throw d then Inl TypeError
      else Inr (case AddressDetails d of
                  None \<Rightarrow> []
                | Some a \<Rightarrow>
                    (case HouseNumber a of
                       None \<Rightarrow> []
                     | Some h \<Rightarrow>
                         if h = [] then []
                         else (case Title a of None \<Rightarrow> [] | Some t \<Rightarrow> t))))
   \<and> map_sum id address
         (parseListingResponse now (d\<lparr>AddressDetails := Some (a\<lparr>HouseNumber := Some h\<rparr>)\<rparr>)) =
       (if sections_throw d then Inl TypeError
        else Inr (if h = [] then [] else (case Title a of None \<Rightarrow> [] | Some t \<Rightarrow> t)))"
proof -
  have s: "sections_throw (d\<lparr>AddressDetails := x\<rparr>) = sections_throw d" for x
    by (simp add: sections_throw_def)
  have t: "or_default v [] = (case v of None \<Rightarrow> [] | Some t \<Rightarrow> t)" for v
    by (cases v) simp_all
  show ?thesis
    by (simp add: parse_address s t field_of_def truthy_string_def split: option.splits)
qed

subsection \<open>The time stamp\<close>

lemma propertyType_stamp:
  "propertyTypeFromAPI (d\<lparr>scrapedAt := t\<rparr>) = propertyTypeFromAPI d"
  by (simp add: propertyTypeFromAPI_def split: option.splits)

lemma normalize_stamp:
  "normalizePropertyFromAPI (d\<lparr>scrapedAt := t\<rparr>) =
     map_sum id (map_option (\<lambda>p. p\<lparr>fp_scrapedAt := t\<rparr>)) (normalizePropertyFromAPI d)"
  by (cases "propertyTypeFromAPI d")
    (simp_all add: normalizePropertyFromAPI_def Let_def propertyType_stamp)

lemma strip_stamp:
  "map_option strip (map_option (\<lambda>p. p\<lparr>fp_scrapedAt := t\<rparr>) r) = map_option strip r"
  by (cases r) (simp_all add: strip_def)

lemma transform_stamp: "transformToStandard (d\<lparr>scrapedAt := t\<rparr>) = transformToStandard d"
  by (simp add: transformToStandard_def Let_def countrySpecific_def extractFeatures_def)

lemma scraper_stamp:
  "scraper_parseListingResponse t1 rawData =
     map_option (\<lambda>p. p\<lparr>fp_scrapedAt := t1\<rparr>) (scraper_parseListingResponse t2 rawData)"
proof (cases "parseListingResponse t2 rawData")
  case (Inl e)
  then show ?thesis
    by (simp add: scraper_parseListingResponse_def parse_stamp [of t1 rawData t2])
next
  case (Inr d)
  then show ?thesis
    by (cases "normalizePropertyFromAPI d")
      (simp_all add: scraper_parseListingResponse_def parse_stamp [of t1 rawData t2]
        normalize_stamp)
qed

text \<open>
  C3, as the code has it. Given the same raw record, two runs of the normalizer agree on
  every field but the time stamp: \<open>parseListingResponse\<close> at the time \<open>t1\<close> is
  \<open>parseListingResponse\<close> at the time \<open>t2\<close> with \<open>scrapedAt\<close> set to \<open>t1\<close>, the record of
  \<open>normalizePropertyFromAPI\<close> differs in \<open>scrapedAt\<close> alone, and the standard record of
  \<open>transformToStandard\<close>, which has no time stamp, is the same; where one run throws, so
  does the other. At the same reading of the clock the records are identical. The record
  of \<open>normalizeProperty\<close> (the HTML scraper) differs in \<open>scrapedAt\<close> and, for a listing
  whose identifier is empty, in the identifier made up of the clock and a random number.
\<close>

theorem normalization_up_to_scrapedAt:
  "parseListingResponse t1 rawData =
     map_sum id (\<lambda>d. d\<lparr>scrapedAt := t1\<rparr>) (parseListingResponse t2 rawData)
   \<and> bindE (parseListingResponse t1 rawData) transformToStandard =
       bindE (parseListingResponse t2 rawData) transformToStandard
   \<and> bindE (parseListingResponse t1 rawData) normalizePropertyFromAPI =
       map_sum id (map_option (\<lambda>p. p\<lparr>fp_scrapedAt := t1\<rparr>))
         (bindE (parseListingResponse t2 rawData) normalizePropertyFromAPI)
   \<and> scraper_parseListingResponse t1 rawData =
       map_option (\<lambda>p. p\<lparr>fp_scrapedAt := t1\<rparr>) (scraper_parseListingResponse t2 rawData)
   \<and> normalizeProperty toStr t1 r1 listing kind =
       map_option (\<lambda>p. p\<lparr>fp_scrapedAt := t1,
                          fp_id := (if pl_id listing = [] then generated_id toStr t1 r1 else fp_id p)\<rparr>)
         (normalizeProperty toStr t2 r2 listing kind)"
proof -
  note a = parse_stamp [of t1 rawData t2]
  have b: "bindE (parseListingResponse t1 rawData) transformToStandard =
       bindE (parseListingResponse t2 rawData) transformToStandard"
    by (cases "parseListingResponse t2 rawData") (simp_all add: a transform_stamp)
  have c: "bindE (parseListingResponse t1 rawData) normalizePropertyFromAPI =
       map_sum id (map_option (\<lambda>p. p\<lparr>fp_scrapedAt := t1\<rparr>))
         (bindE (parseListingResponse t2 rawData) normalizePropertyFromAPI)"
    by (cases "parseListingResponse t2 rawData") (simp_all add: a normalize_stamp)
  have d: "normalizeProperty toStr t1 r1 listing kind =
       map_option (\<lambda>p. p\<lparr>fp_scrapedAt := t1,
                          fp_id := (if pl_id listing = [] then generated_id toStr t1 r1 else fp_id p)\<rparr>)
         (normalizeProperty toStr t2 r2 listing kind)"
    by (simp add: normalizeProperty_def Let_def generated_id_def truthy_string_def)
  from a b c d scraper_stamp [of t1 rawData t2] show ?thesis by blast
qed

text \<open>
  C3 as stated fails: the same raw record parsed at two readings of the clock gives two
  records that differ, in \<open>scrapedAt\<close>.
\<close>

theorem scrapedAt_differs_cex:
  "parseListingResponse 0 example_listing \<noteq> parseListingResponse 1 example_listing"
proof
  assume "parseListingResponse 0 example_listing = parseListingResponse 1 example_listing"
  then have "example_data\<lparr>scrapedAt := 0\<rparr> = example_data\<lparr>scrapedAt := 1\<rparr>"
    by (simp add: example_parse)
  then have "scrapedAt (example_data\<lparr>scrapedAt := 0\<rparr>) = scrapedAt (example_data\<lparr>scrapedAt := 1\<rparr>)"
    by (rule arg_cong)
  then show False by simp
qed

subsection \<open>The guard and the status of the REST normalizer\<close>

lemma propertyType_Inl:
  "(propertyTypeFromAPI data = Inl TypeError) = is_nontext (dutchPropertyType data)"
  by (cases "dutchPropertyType data" rule: is_nontext.cases)
    (simp_all add: propertyTypeFromAPI_def Let_def)

lemma normalize_None:
  "(normalizePropertyFromAPI data = Inr None) =
     (title data = [] \<and> \<not> truthy_opt truthy_number (price data))"
  by (cases "propertyTypeFromAPI data")
    (simp_all add: normalizePropertyFromAPI_def Let_def truthy_string_def)

lemma normalize_Inl:
  "(normalizePropertyFromAPI data = Inl TypeError) =
     (\<not> (title data = [] \<and> \<not> truthy_opt truthy_number (price data))
      \<and> is_nontext (dutchPropertyType data))"
  using propertyType_Inl [of data]
  by (cases "propertyTypeFromAPI data")
    (auto simp: normalizePropertyFromAPI_def Let_def truthy_string_def error_is_TypeError)

lemma normalize_status:
  "map_sum id (map_option fp_status) (normalizePropertyFromAPI data) =
     (if title data = [] \<and> \<not> truthy_opt truthy_number (price data) then Inr None
      else if is_nontext (dutchPropertyType data) then Inl TypeError
      else Inr (Some (if isSoldOrRented data
                      then (if transactionType data = Rent then str ''rented'' else str ''sold'')
                      else str ''available'')))"
  using propertyType_Inl [of data]
  by (cases "propertyTypeFromAPI data")
    (auto simp: normalizePropertyFromAPI_def Let_def truthy_string_def error_is_TypeError)

lemma normalize_propertyType:
  "map_sum id (map_option fp_propertyType) (normalizePropertyFromAPI data) =
     (if title data = [] \<and> \<not> truthy_opt truthy_number (price data) then Inr None
      else map_sum id Some (propertyTypeFromAPI data))"
  by (cases "propertyTypeFromAPI data")
    (simp_all add: normalizePropertyFromAPI_def Let_def truthy_string_def)

lemma has_title_or_price_parsed:
  "has_title_or_price rawData =
     (\<not> (or_default (field_of Title (AddressDetails rawData)) [] = []
         \<and> \<not> truthy_opt truthy_number (number_or_null (NumericSellingPrice rawData))))"
proof -
  have t: "(or_default (field_of Title (AddressDetails rawData)) [] = []) =
      (\<not> (case AddressDetails rawData of
             None \<Rightarrow> False
           | Some a \<Rightarrow> (case Title a of None \<Rightarrow> False | Some t \<Rightarrow> t \<noteq> [])))"
    by (simp add: field_of_def split: option.splits)
  have p: "truthy_opt truthy_number (number_or_null (NumericSellingPrice rawData)) =
      (case NumericSellingPrice rawData of
         None \<Rightarrow> False
       | Some NaN \<Rightarrow> False
       | Some (Fin q) \<Rightarrow> q \<noteq> 0
       | Some PosInf \<Rightarrow> True
       | Some NegInf \<Rightarrow> True)"
    by (simp add: truthy_number_or_null split: option.splits number.splits)
  show ?thesis
    unfolding has_title_or_price_def t p by simp
qed

lemma scraper_None:
  "(scraper_parseListingResponse now rawData = None) = (\<not> yields_record rawData)"
proof (cases "parseListingResponse now rawData")
  case (Inl e)
  then have "sections_throw rawData"
    using parse_Inl [of now rawData] error_is_TypeError [of e] by simp
  with Inl show ?thesis
    by (simp add: scraper_parseListingResponse_def yields_record_def)
next
  case (Inr d)
  then have s: "\<not> sections_throw rawData"
    using parse_Inl [of now rawData] by simp
  have t: "title d = or_default (field_of Title (AddressDetails rawData)) []"
    using parse_title [of now rawData] Inr s by simp
  have p: "price d = number_or_null (NumericSellingPrice rawData)"
    using parse_price [of now rawData] Inr s by simp
  have l: "is_nontext (dutchPropertyType d) = label_is_nontext rawData"
    using parse_label [of now rawData] Inr s by (simp add: label_is_nontext_def)
  have "(scraper_parseListingResponse now rawData = None) =
      (normalizePropertyFromAPI d = Inr None \<or> normalizePropertyFromAPI d = Inl TypeError)"
    by (cases "normalizePropertyFromAPI d")
      (simp_all add: scraper_parseListingResponse_def Inr error_is_TypeError)
  then show ?thesis
    unfolding normalize_None normalize_Inl yields_record_def has_title_or_price_parsed t p l
    using s by blast
qed

subsection \<open>Where the transformer throws\<close>

lemma unprintable_is_nontext: "unprintable d \<Longrightarrow> is_nontext d"
  by (cases d rule: unprintable.cases) simp_all

lemma feature_Inl: "(feature l v = Inl TypeError) = unprintable v"
  by (cases v rule: unprintable.cases) simp_all

lemma extractFeatures_Inl:
  "(extractFeatures data = Inl TypeError) =
     (unprintable (parkingType data) \<or> unprintable (constructionType data))"
  by (auto simp: extractFeatures_def Let_def bindE_Inl_iff feature_Inl
      not_Inl_TypeError [symmetric])

lemma normalizePropertyType_Inl: "(normalizePropertyType d ob = Inl TypeError) = unprintable d"
  by (cases d rule: unprintable.cases) (simp_all add: normalizePropertyType_def Let_def)

lemma on_string_Inl: "(on_string f v = Inl TypeError) = is_nontext v"
  by (simp add: on_string_if)

lemma transform_Inl: "(transformToStandard data = Inl TypeError) = transform_throws data"
  using unprintable_is_nontext [of "dutchPropertyType data"]
  by (auto simp: transformToStandard_def Let_def bindE_Inl_iff normalizePropertyType_Inl
      extractFeatures_Inl on_string_Inl not_Inl_TypeError [symmetric] transform_throws_def)

lemma transform_parts:
  assumes "\<not> transform_throws data"
  shows "\<exists>p f n. normalizePropertyType (dutchPropertyType data) (Some (objectType data)) = Inr p
           \<and> extractFeatures data = Inr f
           \<and> on_string (\<lambda>t. Some (js_includes (toLowerCase t) (str ''nieuwbouw'')))
                 (dutchPropertyType data) = Inr n"
proof -
  have "normalizePropertyType (dutchPropertyType data) (Some (objectType data)) \<noteq> Inl TypeError"
    using assms unprintable_is_nontext [of "dutchPropertyType data"]
    by (auto simp: normalizePropertyType_Inl transform_throws_def)
  moreover have "extractFeatures data \<noteq> Inl TypeError"
    using assms by (simp add: extractFeatures_Inl transform_throws_def)
  moreover have "on_string (\<lambda>t. Some (js_includes (toLowerCase t) (str ''nieuwbouw'')))
                 (dutchPropertyType data) \<noteq> Inl TypeError"
    using assms by (simp add: on_string_Inl transform_throws_def)
  ultimately show ?thesis
    unfolding not_Inl_TypeError by blast
qed

lemma transform_status:
  "map_sum id (\<lambda>r. (sp_status r, transaction_type r)) (transformToStandard data) =
     (if transform_throws data then Inl TypeError
      else Inr (if isSoldOrRented data
                then (if transactionType data = Rent then rented else sold)
                else active,
                if transactionType data = Rent then Rent else Sale))"
proof (cases "transform_throws data")
  case True
  then show ?thesis by (simp add: transform_Inl [symmetric])
next
  case False
  from transform_parts [OF False] obtain p f n where
    "normalizePropertyType (dutchPropertyType data) (Some (objectType data)) = Inr p"
    "extractFeatures data = Inr f"
    "on_string (\<lambda>t. Some (js_includes (toLowerCase t) (str ''nieuwbouw'')))
       (dutchPropertyType data) = Inr n"
    by blast
  with False show ?thesis
    by (simp add: transformToStandard_def Let_def)
qed

text \<open>
  C8, as the code has it. When the sold-or-rented flag is set, the status is \<open>rented\<close> for
  the transaction kind rent and \<open>sold\<close> for every other kind (sale and unknown, which
  \<open>transformToStandard\<close> both reports as sale). When the flag is not set, the status is
  \<open>active\<close> in the standard record of \<open>transformToStandard\<close> and \<open>available\<close> in the record
  of \<open>normalizePropertyFromAPI\<close>, which has a status only when it returns a record. Each
  of the two has a status to give only when it does not throw.
\<close>

theorem status_derivation:
  "map_sum id (\<lambda>r. (sp_status r, transaction_type r)) (transformToStandard data) =
     (if transform_throws data then Inl TypeError
      else Inr (if isSoldOrRented data
                then (if transactionType data = Rent then rented else sold)
                else active,
                if transactionType data = Rent then Rent else Sale))
   \<and> map_sum id (map_option fp_status) (normalizePropertyFromAPI data) =
       (if title data = [] \<and> \<not> truthy_opt truthy_number (price data) then Inr None
        else if is_nontext (dutchPropertyType data) then Inl TypeError
        else Inr (Some (if isSoldOrRented data
                        then (if transactionType data = Rent then str ''rented'' else str ''sold'')
                        else str ''available'')))"
  using transform_status [of data] normalize_status [of data] by blast

text \<open>
  C8 as stated fails: the sample house is not sold, and the record that
  \<open>normalizePropertyFromAPI\<close> makes of it has the status \<open>available\<close>, not \<open>active\<close>.
\<close>

theorem status_available_cex:
  "IsSoldOrRented example_listing = Some False
   \<and> map_sum id (map_option fp_status)
         (bindE (parseListingResponse 0 example_listing) normalizePropertyFromAPI) =
       Inr (Some (str ''available''))
   \<and> map_option fp_status (scraper_parseListingResponse 0 example_listing) =
       Some (str ''available'')
   \<and> str ''available'' \<noteq> str ''active''"
proof -
  have a: "IsSoldOrRented example_listing = Some False"
    by (simp add: example_listing_def)
  have s: "map_sum id (map_option fp_status) (normalizePropertyFromAPI (example_data\<lparr>scrapedAt := 0\<rparr>)) =
      Inr (Some (str ''available''))"
    unfolding normalize_status by (simp add: example_data_def str_def)
  have b: "map_sum id (map_option fp_status)
         (bindE (parseListingResponse 0 example_listing) normalizePropertyFromAPI) =
       Inr (Some (str ''available''))"
    using s by (simp add: example_parse)
  have c: "map_option fp_status (scraper_parseListingResponse 0 example_listing) =
       Some (str ''available'')"
    using s by (cases "normalizePropertyFromAPI (example_data\<lparr>scrapedAt := 0\<rparr>)")
      (simp_all add: scraper_parseListingResponse_def example_parse)
  have d: "str ''available'' \<noteq> str ''active''"
    by (simp add: str_def)
  from a b c d show ?thesis by blast
qed

subsection \<open>The classifier\<close>

lemma value_shapes [case_names absent string_value other_value no_text]:
  assumes "d = None \<Longrightarrow> P"
    and "\<And>s. d = Some (Str s) \<Longrightarrow> P"
    and "\<And>t. d = Some (NonStr (Some t)) \<Longrightarrow> P"
    and "d = Some (NonStr None) \<Longrightarrow> P"
  shows P
proof (cases d)
  case None
  then show ?thesis by (rule assms(1))
next
  case (Some v)
  show ?thesis
  proof (cases v)
    case (Str s)
    with Some show ?thesis by (simp add: assms(2))
  next
    case (NonStr t)
    with Some show ?thesis by (cases t) (simp_all add: assms(3) assms(4))
  qed
qed

lemma blank_no_match: "first_match (toLowerCase (str '' '')) = None"
  by (simp add: first_match_def first_in_def type_table_def str_def toLowerCase_def lower_unit_def)

lemma empty_no_match: "category_in object_table (toLowerCase []) = str ''property''"
  by (simp add: category_in_def first_in_def object_table_def str_def toLowerCase_def)

lemma normalizePropertyType_table:
  "normalizePropertyType d ob =
     (if unprintable d then Inl TypeError else Inr (classify_spec (map_option printed d) ob))"
proof (cases d rule: value_shapes)
  case no_text
  then show ?thesis by (simp add: normalizePropertyType_def)
next
  case absent
  note 2 = absent
  show ?thesis
  proof (cases "truthy_opt truthy_string ob")
    case True
    then show ?thesis
      unfolding 2 normalizePropertyType_def
      by (simp add: classify_spec_def first_match_def first_in_def type_table_def Let_def)
  next
    case False
    then show ?thesis
      unfolding 2 normalizePropertyType_def
      using blank_no_match by (simp add: classify_spec_def or_default_falsy)
  qed
next
  case (string_value s)
  note 3 = string_value
  show ?thesis
  proof (cases "s = [] \<and> \<not> truthy_opt truthy_string ob")
    case True
    then show ?thesis
      unfolding 3 normalizePropertyType_def
      using blank_no_match by (simp add: classify_spec_def or_default_falsy)
  next
    case False
    then show ?thesis
      unfolding 3 normalizePropertyType_def
      by (auto simp: classify_spec_def first_match_def first_in_def type_table_def Let_def)
  qed
next
  case (other_value t)
  note 4 = other_value
  show ?thesis
    unfolding 4 normalizePropertyType_def
    by (simp add: classify_spec_def first_match_def first_in_def type_table_def Let_def)
qed

lemma normalizePropertyType_strings:
  "normalizePropertyType (map_option Str d) ob = Inr (classify_spec d ob)"
  by (cases d) (simp_all add: normalizePropertyType_table)

lemma property_iff_no_match:
  "(classify_spec d ob = str ''property'') =
     (first_match (toLowerCase (or_default d [] @ str '' '' @ or_default ob [])) = None)"
  unfolding classify_spec_def
  by (auto simp: first_match_def first_in_def type_table_def str_def split: option.splits if_splits)

lemma object_chain:
  "category_in object_table obj =
     (if js_includes obj (str ''apartment'') then str ''apartment''
      else if js_includes obj (str ''house'') then str ''house''
      else if js_includes obj (str ''studio'') then str ''studio''
      else if js_includes obj (str ''villa'') then str ''villa''
      else str ''property'')"
  by (simp add: category_in_def first_in_def object_table_def)

lemma dutch_chain:
  "category_in dutch_table dutch =
     (if js_includes dutch (str ''appartement'') then str ''apartment''
      else if js_includes dutch (str ''huis'') \<or> js_includes dutch (str ''woning'')
      then str ''house''
      else if js_includes dutch (str ''studio'') then str ''studio''
      else if js_includes dutch (str ''villa'') then str ''villa''
      else if js_includes dutch (str ''bungalow'') then str ''bungalow''
      else if js_includes dutch (str ''tuin'') then str ''land''
      else if js_includes dutch (str ''nieuwbouw'') then str ''new-construction''
      else str ''property'')"
  by (simp add: category_in_def first_in_def dutch_table_def)

lemma object_in_place:
  "(if truthy_string ob
    then Inr (category_in object_table (toLowerCase ob))
    else Inr (str ''property'')) = (Inr (category_in object_table (toLowerCase ob)) :: error + jsstring)"
  by (cases "ob = []") (simp_all add: truthy_string_def empty_no_match)

lemma propertyType_in_place:
  "propertyTypeFromAPI data =
     (if is_nontext (dutchPropertyType data) then Inl TypeError
      else Inr (classify_in_place (map_option printed (dutchPropertyType data)) (objectType data)))"
proof (cases "dutchPropertyType data" rule: value_shapes)
  case no_text
  then show ?thesis by (simp add: propertyTypeFromAPI_def)
next
  case (other_value t)
  then show ?thesis by (simp add: propertyTypeFromAPI_def)
next
  case absent
  have "propertyTypeFromAPI data =
      (if truthy_string (objectType data)
       then Inr (category_in object_table (toLowerCase (objectType data)))
       else Inr (str ''property''))"
    unfolding object_chain by (simp add: propertyTypeFromAPI_def absent Let_def)
  then show ?thesis
    unfolding object_in_place by (simp add: absent classify_in_place_def)
next
  case (string_value s)
  show ?thesis
  proof (cases "s = []")
    case True
    have "propertyTypeFromAPI data =
        (if truthy_string (objectType data)
         then Inr (category_in object_table (toLowerCase (objectType data)))
         else Inr (str ''property''))"
      unfolding object_chain by (simp add: propertyTypeFromAPI_def string_value True Let_def)
    then show ?thesis
      unfolding object_in_place by (simp add: string_value True classify_in_place_def)
  next
    case False
    have "propertyTypeFromAPI data = Inr (category_in dutch_table (toLowerCase s))"
      unfolding dutch_chain by (simp add: propertyTypeFromAPI_def string_value False Let_def)
    then show ?thesis
      by (simp add: string_value False classify_in_place_def)
  qed
qed

lemma normalize_in_place:
  "map_sum id (map_option fp_propertyType) (normalizePropertyFromAPI data) =
     (if title data = [] \<and> \<not> truthy_opt truthy_number (price data) then Inr None
      else if is_nontext (dutchPropertyType data) then Inl TypeError
      else Inr (Some (classify_in_place (map_option printed (dutchPropertyType data))
                        (objectType data))))"
  by (simp add: normalize_propertyType propertyType_in_place)

lemma woning_met_tuin:
  "normalizePropertyType (Some (Str (str ''woning met tuin''))) None = Inr (str ''house'')"
  by (simp add: normalizePropertyType_def str_def toLowerCase_def lower_unit_def)

lemma woning_met_tuin_api:
  "propertyTypeFromAPI (data\<lparr>dutchPropertyType := Some (Str (str ''woning met tuin''))\<rparr>) =
     Inr (str ''house'')"
  by (simp add: propertyTypeFromAPI_def str_def toLowerCase_def lower_unit_def)

lemma no_room_in_place:
  "classify_in_place (Some (str ''kamer'')) ob = str ''property''
   \<and> classify_in_place (Some (str ''grond'')) ob = str ''property''
   \<and> classify_in_place (Some (str ''boerderij'')) ob = str ''property''"
  by (simp add: classify_in_place_def category_in_def first_in_def dutch_table_def str_def
      toLowerCase_def lower_unit_def)

text \<open>
  C6, as the code has it. For every pair of labels, \<open>normalizePropertyType\<close> (the
  classifier of \<open>transformToStandard\<close>) joins the two labels with one space, a missing
  label counting as empty and a first label that is no string as the text it converts to,
  lower-cases the result and takes the category of the first row of the ordered table
  (apartment terms, house terms, villa, bungalow, studio, room terms, land terms,
  new-construction terms, farm terms) of which a term occurs in it; it throws only for a
  first label that cannot be converted to a text; the label \<open>woning met tuin\<close> is a house
  and not land; for string labels the function is total, and its category is \<open>property\<close>
  exactly when no term of the table occurs. The classification that
  \<open>normalizePropertyFromAPI\<close> makes in place is another one: it throws for a Dutch label
  that is no string; a Dutch label that is a string and not empty decides alone, by the
  first row of its own table (appartement; huis, woning; studio; villa; bungalow; tuin;
  nieuwbouw); without such a label the object type decides, by the first row of a table of
  English terms (apartment, house, studio, villa); with no row the category is
  \<open>property\<close>. There too \<open>woning met tuin\<close> is a house, and the Dutch labels \<open>kamer\<close>,
  \<open>grond\<close> and \<open>boerderij\<close> are \<open>property\<close> whatever the object type is.
\<close>

theorem normalizePropertyType_table_order:
  "normalizePropertyType (map_option Str d) ob = Inr (classify_spec d ob)
   \<and> normalizePropertyType v ob =
       (if unprintable v then Inl TypeError else Inr (classify_spec (map_option printed v) ob))
   \<and> normalizePropertyType (Some (Str (str ''woning met tuin''))) None = Inr (str ''house'')
   \<and> propertyTypeFromAPI (data\<lparr>dutchPropertyType := Some (Str (str ''woning met tuin''))\<rparr>) =
       Inr (str ''house'')
   \<and> (normalizePropertyType (map_option Str d) ob = Inr (str ''property'')) =
       (first_match (toLowerCase (or_default d [] @ str '' '' @ or_default ob [])) = None)
   \<and> propertyTypeFromAPI data =
       (if is_nontext (dutchPropertyType data) then Inl TypeError
        else Inr (classify_in_place (map_option printed (dutchPropertyType data))
                    (objectType data)))
   \<and> map_sum id (map_option fp_propertyType) (normalizePropertyFromAPI data) =
       (if title data = [] \<and> \<not> truthy_opt truthy_number (price data) then Inr None
        else if is_nontext (dutchPropertyType data) then Inl TypeError
        else Inr (Some (classify_in_place (map_option printed (dutchPropertyType data))
                          (objectType data))))
   \<and> classify_in_place (Some (str ''kamer'')) ob' = str ''property''
   \<and> classify_in_place (Some (str ''grond'')) ob' = str ''property''
   \<and> classify_in_place (Some (str ''boerderij'')) ob' = str ''property''"
proof -
  have p: "(normalizePropertyType (map_option Str d) ob = Inr (str ''property'')) =
       (first_match (toLowerCase (or_default d [] @ str '' '' @ or_default ob [])) = None)"
    by (simp add: normalizePropertyType_strings property_iff_no_match)
  from p normalizePropertyType_strings [of d ob] normalizePropertyType_table [of v ob]
    woning_met_tuin woning_met_tuin_api [of data] propertyType_in_place [of data]
    normalize_in_place [of data] no_room_in_place [of ob']
  show ?thesis by blast
qed

text \<open>
  C6 as stated fails for the classification that \<open>normalizePropertyFromAPI\<close> makes in
  place: it has no room terms, so the label \<open>Kamer\<close> gives \<open>property\<close> there, where the
  ordered table (and \<open>normalizePropertyType\<close>) gives \<open>room\<close>.
\<close>

theorem kamer_not_room_cex:
  "dutchPropertyType kamer_data = Some (Str (str ''Kamer''))
   \<and> objectType kamer_data = str ''House''
   \<and> map_sum id (map_option fp_propertyType) (normalizePropertyFromAPI kamer_data) =
       Inr (Some (str ''property''))
   \<and> classify_spec (Some (str ''Kamer'')) (Some (str ''House'')) = str ''room''
   \<and> normalizePropertyType (Some (Str (str ''Kamer''))) (Some (str ''House'')) =
       Inr (str ''room'')"
proof -
  have d: "dutchPropertyType kamer_data = Some (Str (str ''Kamer''))"
    by (simp add: kamer_data_def)
  have ob: "objectType kamer_data = str ''House''"
    by (simp add: kamer_data_def example_data_def)
  have t: "title kamer_data = str ''IJdok 37''"
    by (simp add: kamer_data_def example_data_def)
  have p: "propertyTypeFromAPI kamer_data = Inr (str ''property'')"
    by (simp add: propertyTypeFromAPI_def d str_def toLowerCase_def lower_unit_def)
  have n: "map_sum id (map_option fp_propertyType) (normalizePropertyFromAPI kamer_data) =
       Inr (Some (str ''property''))"
    by (simp add: normalize_propertyType t p) (simp add: str_def)
  have c: "classify_spec (Some (str ''Kamer'')) (Some (str ''House'')) = str ''room''"
    by (simp add: classify_spec_def first_match_def first_in_def type_table_def str_def
        toLowerCase_def lower_unit_def)
  have m: "normalizePropertyType (Some (Str (str ''Kamer''))) (Some (str ''House'')) =
       Inr (str ''room'')"
    using normalizePropertyType_strings [of "Some (str ''Kamer'')" "Some (str ''House'')"] c
    by simp
  from d ob n c m show ?thesis by blast
qed

subsection \<open>The price per square metre\<close>

text \<open>
  C7. The claim is right and \<open>parsePricePerSqm\<close> misses it: its character class does not
  hold the euro sign, so the string \<open>\<euro> 3.500\<close> keeps the sign, does not parse, and the
  attribute is absent, where the cleaning of \<open>parseKenmerkSections\<close> strips the sign and
  the same string parses to 3500. A second effect of the two cleanings in a row: the raw
  value \<open>\<euro> 3.500,50\<close> leaves \<open>parseKenmerkSections\<close> as \<open>3500.50\<close>, whose decimal point
  \<open>parsePricePerSqm\<close> then strips as a thousands separator, giving 350050.
\<close>

theorem parsePricePerSqm_keeps_euro_sign:
  "parsePricePerSqm (Some ([8364, 32] @ str ''3.500'')) = None
   \<and> parseFloat (cleanPricePerM2 ([8364, 32] @ str ''3.500'')) = Fin 3500
   \<and> cleanPricePerM2 ([8364, 32] @ str ''3.500,50'') = str ''3500.50''
   \<and> parsePricePerSqm (Some (str ''3500.50'')) = Some (Fin 350050)"
proof -
  have a: "parsePricePerSqm (Some ([8364, 32] @ str ''3.500'')) = None"
    by (simp add: parsePricePerSqm_def str_def isWhiteSpace_def parseFloat_def isDigit_def Let_def)
  have b: "parseFloat (cleanPricePerM2 ([8364, 32] @ str ''3.500'')) = Fin 3500"
    by (simp add: cleanPricePerM2_def str_def isWhiteSpace_def parseFloat_def isDigit_def Let_def
        digitsValue_def scale10_def)
  have c: "cleanPricePerM2 ([8364, 32] @ str ''3.500,50'') = str ''3500.50''"
    by (simp add: cleanPricePerM2_def str_def isWhiteSpace_def)
  have d: "parsePricePerSqm (Some (str ''3500.50'')) = Some (Fin 350050)"
    by (simp add: parsePricePerSqm_def str_def isWhiteSpace_def parseFloat_def isDigit_def Let_def
        digitsValue_def scale10_def)
  from a b c d show ?thesis by simp
qed

subsection \<open>The extension bag\<close>

lemma set_key_apply: "set_key g k v cs k' = (if g \<and> k' = k then v else cs k')"
  by (simp add: set_key_def)

lemma value_or_null_map:
  "(if truthy_opt truthy_kvalue v then map_option of_kvalue v else None) =
     map_option of_kvalue (value_or_null v)"
  by (cases v) simp_all

lemma countrySpecific_apply:
  "countrySpecific data k =
     (if k = ''publication_date'' then map_option VString (or_null (publicationDate data))
      else if k = ''saves''
        then (if truthy_number (saves data) then Some (VNumber (saves data)) else None)
      else if k = ''views''
        then (if truthy_number (views data) then Some (VNumber (views data)) else None)
      else if k = ''price_per_sqm_original''
        then (if truthy_opt truthy_number (parsePricePerSqm (pricePerSqm data))
              then map_option VString (pricePerSqm data) else None)
      else if k = ''plot_sqm'' then map_option VNumber (number_or_null (plotSqm data))
      else if k = ''energy_label'' then map_option VString (or_null (energyLabel data))
      else if k = ''province''
        then (if province data = [] then None else Some (VString (province data)))
      else if k = ''parking_type'' then map_option of_kvalue (value_or_null (parkingType data))
      else if k = ''construction_type''
        then map_option of_kvalue (value_or_null (constructionType data))
      else if k = ''dutch_property_type''
        then map_option of_kvalue (value_or_null (dutchPropertyType data))
      else None)"
  unfolding countrySpecific_def Let_def set_key_apply
  by (simp add: or_null_truthy or_null_falsy number_or_null_truthy number_or_null_falsy
      value_or_null_truthy value_or_null_falsy truthy_string_def)

lemma countrySpecific_dom:
  "dom (countrySpecific data) \<subseteq>
     set [''dutch_property_type'', ''construction_type'', ''parking_type'', ''province'',
          ''energy_label'', ''plot_sqm'', ''price_per_sqm_original'', ''views'', ''saves'',
          ''publication_date'']"
proof
  fix k
  assume "k \<in> dom (countrySpecific data)"
  then have "countrySpecific data k \<noteq> None"
    by auto
  then show "k \<in> set [''dutch_property_type'', ''construction_type'', ''parking_type'',
      ''province'', ''energy_label'', ''plot_sqm'', ''price_per_sqm_original'', ''views'',
      ''saves'', ''publication_date'']"
    unfolding countrySpecific_apply [of data k]
    by (simp split: if_splits)
qed

lemma transform_fields:
  assumes "\<not> transform_throws data"
  shows "\<exists>r. transformToStandard data = Inr r
           \<and> country_specific r = countrySpecific data
           \<and> price_per_sqm r = parsePricePerSqm (pricePerSqm data)
           \<and> loc_region (sp_location r) = province data
           \<and> energy_rating r = energyLabel data"
proof -
  from transform_parts [OF assms] obtain p f n where
    "normalizePropertyType (dutchPropertyType data) (Some (objectType data)) = Inr p"
    "extractFeatures data = Inr f"
    "on_string (\<lambda>t. Some (js_includes (toLowerCase t) (str ''nieuwbouw'')))
       (dutchPropertyType data) = Inr n"
    by blast
  then show ?thesis
    by (simp add: transformToStandard_def Let_def)
qed

text \<open>
  C4, as the code has it. For every parsed record on which \<open>transformToStandard\<close> does not
  throw, the extension bag of its result holds the original property-type label, the
  construction type and the parking type exactly when the value is there and is not the
  empty string, the energy label and the publication date exactly when the string is
  there and not empty, the province when it is not empty, the plot area, the view count
  and the save count exactly when the number is there and is neither zero nor NaN, and the
  raw price-per-area string exactly when the coercion \<open>parsePricePerSqm\<close> makes a number
  other than zero of it; it holds no other key, so a fact that is absent produces no key.
  The province and the energy label are universal fields as well (\<open>region\<close>,
  \<open>energy_rating\<close>), and the coerced price per area is the universal field
  \<open>price_per_sqm\<close>.
\<close>

theorem countrySpecific_keys:
  "map_sum id (\<lambda>r. country_specific r ''dutch_property_type'') (transformToStandard data) =
     (if transform_throws data then Inl TypeError
      else Inr (map_option of_kvalue (value_or_null (dutchPropertyType data))))
   \<and> map_sum id (\<lambda>r. country_specific r ''construction_type'') (transformToStandard data) =
       (if transform_throws data then Inl TypeError
        else Inr (map_option of_kvalue (value_or_null (constructionType data))))
   \<and> map_sum id (\<lambda>r. country_specific r ''parking_type'') (transformToStandard data) =
       (if transform_throws data then Inl TypeError
        else Inr (map_option of_kvalue (value_or_null (parkingType data))))
   \<and> map_sum id (\<lambda>r. country_specific r ''province'') (transformToStandard data) =
       (if transform_throws data then Inl TypeError
        else Inr (if province data = [] then None else Some (VString (province data))))
   \<and> map_sum id (\<lambda>r. country_specific r ''energy_label'') (transformToStandard data) =
       (if transform_throws data then Inl TypeError
        else Inr (map_option VString (or_null (energyLabel data))))
   \<and> map_sum id (\<lambda>r. country_specific r ''plot_sqm'') (transformToStandard data) =
       (if transform_throws data then Inl TypeError
        else Inr (map_option VNumber (number_or_null (plotSqm data))))
   \<and> map_sum id (\<lambda>r. (country_specific r ''price_per_sqm_original'', price_per_sqm r))
         (transformToStandard data) =
       (if transform_throws data then Inl TypeError
        else Inr (if truthy_opt truthy_number (parsePricePerSqm (pricePerSqm data))
                  then map_option VString (pricePerSqm data) else None,
                  parsePricePerSqm (pricePerSqm data)))
   \<and> map_sum id (\<lambda>r. country_specific r ''views'') (transformToStandard data) =
       (if transform_throws data then Inl TypeError
        else Inr (if truthy_number (views data) then Some (VNumber (views data)) else None))
   \<and> map_sum id (\<lambda>r. country_specific r ''saves'') (transformToStandard data) =
       (if transform_throws data then Inl TypeError
        else Inr (if truthy_number (saves data) then Some (VNumber (saves data)) else None))
   \<and> map_sum id (\<lambda>r. country_specific r ''publication_date'') (transformToStandard data) =
       (if transform_throws data then Inl TypeError
        else Inr (map_option VString (or_null (publicationDate data))))
   \<and> map_sum id (\<lambda>r. dom (country_specific r) \<subseteq>
         set [''dutch_property_type'', ''construction_type'', ''parking_type'', ''province'',
              ''energy_label'', ''plot_sqm'', ''price_per_sqm_original'', ''views'', ''saves'',
              ''publication_date'']) (transformToStandard data) =
       (if transform_throws data then Inl TypeError else Inr True)
   \<and> map_sum id (\<lambda>r. (loc_region (sp_location r), energy_rating r)) (transformToStandard data) =
       (if transform_throws data then Inl TypeError
        else Inr (province data, energyLabel data))"
proof (cases "transform_throws data")
  case True
  then have "transformToStandard data = Inl TypeError"
    by (simp add: transform_Inl)
  with True show ?thesis by simp
next
  case False
  from transform_fields [OF False] obtain r where r:
    "transformToStandard data = Inr r"
    "country_specific r = countrySpecific data"
    "price_per_sqm r = parsePricePerSqm (pricePerSqm data)"
    "loc_region (sp_location r) = province data"
    "energy_rating r = energyLabel data"
    by blast
  show ?thesis
    using False countrySpecific_dom [of data]
    by (simp add: r countrySpecific_apply)
qed

text \<open>
  C4 as stated fails: a price-per-area string that is not empty and is no number is in no
  field of the output, neither under \<open>price_per_sqm_original\<close> nor as \<open>price_per_sqm\<close>.
\<close>

theorem unparsed_price_dropped_cex:
  "pricePerSqm unparsed_price_data = Some (str ''op aanvraag'')
   \<and> map_sum id (\<lambda>r. (country_specific r ''price_per_sqm_original'', price_per_sqm r))
         (transformToStandard unparsed_price_data) = Inr (None, None)"
proof -
  have p: "parsePricePerSqm (Some (str ''op aanvraag'')) = None"
    by (simp add: parsePricePerSqm_def str_def isWhiteSpace_def parseFloat_def isDigit_def Let_def)
  have v: "pricePerSqm unparsed_price_data = Some (str ''op aanvraag'')"
    by (simp add: unparsed_price_data_def)
  have t: "\<not> transform_throws unparsed_price_data"
    by (simp add: transform_throws_def unparsed_price_data_def example_data_def)
  from transform_fields [OF t] obtain r where r:
    "transformToStandard unparsed_price_data = Inr r"
    "country_specific r = countrySpecific unparsed_price_data"
    "price_per_sqm r = parsePricePerSqm (pricePerSqm unparsed_price_data)"
    by blast
  show ?thesis
    by (simp add: r countrySpecific_apply v p)
qed

subsection \<open>One request\<close>

lemma timerDelay_exact: "1 \<le> delay \<Longrightarrow> delay \<le> 2147483647 \<Longrightarrow> timerDelay delay = delay"
  by (simp add: timerDelay_def)

lemma timerDelay_pos: "1 \<le> timerDelay delay"
  by (simp add: timerDelay_def)

lemma rateLimit_last:
  assumes "\<forall>t. 0 \<le> lag e t"
    and "lastRequestTime c \<le> clock c"
    and "delayNeeded delayMs \<le> 2147483647"
  shows "lastRequestTime c + delayNeeded delayMs \<le> lastRequestTime (rateLimit e delayMs c)"
proof (cases "clock c - lastRequestTime c < delayNeeded delayMs")
  case True
  have "timerDelay (delayNeeded delayMs - (clock c - lastRequestTime c)) =
      delayNeeded delayMs - (clock c - lastRequestTime c)"
    using True assms(2) assms(3) by (intro timerDelay_exact) simp_all
  moreover have "0 \<le> lag e (clock c)"
    using assms(1) by simp
  ultimately show ?thesis
    using True by (simp add: rateLimit_def Let_def)
next
  case False
  then show ?thesis by (simp add: rateLimit_def Let_def)
qed

lemma rateLimit_clock:
  assumes "\<forall>t. 0 \<le> lag e t"
  shows "clock c \<le> clock (rateLimit e delayMs c)"
proof -
  have "0 \<le> lag e (clock c)"
    using assms by simp
  then show ?thesis
    using timerDelay_pos [of "delayNeeded delayMs - (clock c - lastRequestTime c)"]
    by (simp add: rateLimit_def Let_def)
qed

lemma rateLimit_last_clock:
  "lastRequestTime (rateLimit e delayMs c) = clock (rateLimit e delayMs c)"
  by (simp add: rateLimit_def Let_def)

lemma rateLimit_count: "requestCount (rateLimit e delayMs c) = requestCount c"
  by (simp add: rateLimit_def Let_def)

lemma getListing_snd:
  "snd (getListingByTinyId e delayMs i c) =
     (rateLimit e delayMs c)
       \<lparr>requestCount := requestCount c + 1,
        clock := clock (rateLimit e delayMs c) + duration e i (clock (rateLimit e delayMs c))\<rparr>"
  by (simp add: getListingByTinyId_def Let_def rateLimit_count split: http_result.splits)

lemma getListing_fst: "fst (getListingByTinyId e delayMs i c) = served e i"
  by (simp add: getListingByTinyId_def Let_def served_def split: http_result.splits)

lemma step_last:
  assumes "\<forall>t. 0 \<le> lag e t"
    and "lastRequestTime c \<le> clock c"
    and "delayNeeded delayMs \<le> 2147483647"
  shows "lastRequestTime c + delayNeeded delayMs \<le> lastRequestTime (step e delayMs i c)"
  using rateLimit_last [OF assms] by (simp add: step_def getListing_snd)

lemma step_from_clock:
  assumes "\<forall>t. 0 \<le> lag e t"
  shows "clock c \<le> lastRequestTime (step e delayMs i c)"
  using rateLimit_clock [OF assms, of c delayMs]
  by (simp add: step_def getListing_snd rateLimit_last_clock)

lemma step_clock:
  assumes "\<forall>i t. 0 \<le> duration e i t"
  shows "lastRequestTime (step e delayMs i c) \<le> clock (step e delayMs i c)"
  using assms by (simp add: step_def getListing_snd rateLimit_last_clock)

lemma step_count: "requestCount (step e delayMs i c) = requestCount c + 1"
  by (simp add: step_def getListing_snd)

lemma step_reply: "step (e\<lparr>reply := r\<rparr>) delayMs i c = step e delayMs i c"
  by (simp add: step_def getListing_snd rateLimit_def Let_def)

lemma fetchListing_exact:
  "fetchListing e delayMs i c =
     (normalizedAt e i (clock (step e delayMs i c)), step e delayMs i c)"
proof -
  obtain r c' where g: "getListingByTinyId e delayMs i c = (r, c')"
    by (cases "getListingByTinyId e delayMs i c")
  have r: "served e i = r"
    using getListing_fst [of e delayMs i c] g by simp
  have c': "step e delayMs i c = c'"
    using g by (simp add: step_def)
  show ?thesis
    by (cases r) (simp_all add: fetchListing_def g normalizedAt_def r c')
qed

lemma normalizedAt_None: "(normalizedAt e i t = None) = (\<not> accepted e i)"
  by (simp add: normalizedAt_def accepted_def scraper_None split: option.splits)

lemma normalizedAt_strip:
  "map_option strip (normalizedAt e i t) = map_option strip (normalizedAt e i 0)"
proof (cases "served e i")
  case None
  then show ?thesis by (simp add: normalizedAt_def)
next
  case (Some rawData)
  have "map_option strip (scraper_parseListingResponse t rawData) =
        map_option strip (scraper_parseListingResponse 0 rawData)"
    by (subst scraper_stamp [of t rawData 0]) (rule strip_stamp)
  with Some show ?thesis by (simp add: normalizedAt_def)
qed

subsection \<open>The loops\<close>

lemma loop_exact:
  "fetchListingsBatch_loop e delayMs ids rs fs c =
     (rs @ List.map_filter (\<lambda>(i, t). normalizedAt e i t) (zip ids (arrivals e delayMs ids c)),
      fs @ filter (\<lambda>i. \<not> accepted e i) ids,
      foldl (\<lambda>c i. step e delayMs i c) c ids)"
proof (induction ids arbitrary: rs fs c)
  case Nil
  show ?case by (simp add: List.map_filter_simps)
next
  case (Cons i ids)
  show ?case
  proof (cases "normalizedAt e i (clock (step e delayMs i c))")
    case None
    then have "\<not> accepted e i"
      by (simp add: normalizedAt_None)
    with None show ?thesis
      by (simp add: fetchListing_exact Cons List.map_filter_simps)
  next
    case (Some p)
    then have "accepted e i"
      using normalizedAt_None [of e i "clock (step e delayMs i c)"] by simp
    with Some show ?thesis
      by (simp add: fetchListing_exact Cons List.map_filter_simps)
  qed
qed

lemma raw_loop:
  "getListingsBatch_loop e delayMs ids rs fs c =
     (rs @ List.map_filter (served e) ids, fs @ filter (\<lambda>i. served e i = None) ids,
      foldl (\<lambda>c i. step e delayMs i c) c ids)"
proof (induction ids arbitrary: rs fs c)
  case Nil
  show ?case by (simp add: List.map_filter_simps)
next
  case (Cons i ids)
  obtain r c' where g: "getListingByTinyId e delayMs i c = (r, c')"
    by (cases "getListingByTinyId e delayMs i c")
  have r: "served e i = r"
    using getListing_fst [of e delayMs i c] g by simp
  have c': "c' = step e delayMs i c"
    using g by (simp add: step_def)
  show ?case
    using g c' by (cases r) (simp_all add: r Cons List.map_filter_simps)
qed

lemma arrivals_reply: "arrivals (e\<lparr>reply := r\<rparr>) delayMs ids c = arrivals e delayMs ids c"
  by (induction ids arbitrary: c) (simp_all add: step_reply)

lemma length_arrivals: "length (arrivals e delayMs ids c) = length ids"
  by (induction ids arbitrary: c) simp_all

lemma strip_map_filter:
  "length ts = length ids \<Longrightarrow>
     map strip (List.map_filter (\<lambda>(i, t). normalizedAt e i t) (zip ids ts)) =
       List.map_filter (\<lambda>i. map_option strip (normalizedAt e i 0)) ids"
proof (induction ids arbitrary: ts)
  case Nil
  show ?case by (simp add: List.map_filter_simps)
next
  case (Cons i ids)
  then obtain t ts' where ts: "ts = t # ts'" "length ts' = length ids"
    by (cases ts) auto
  show ?case
    using normalizedAt_strip [of e i t] Cons.IH [OF ts(2)]
    by (cases "normalizedAt e i t"; cases "normalizedAt e i 0")
      (simp_all add: ts List.map_filter_simps)
qed

lemma map_filter_accepted:
  "List.map_filter (\<lambda>i. map_option strip (normalizedAt e i 0)) (filter (accepted e) ids) =
     List.map_filter (\<lambda>i. map_option strip (normalizedAt e i 0)) ids"
proof (induction ids)
  case Nil
  show ?case by simp
next
  case (Cons i ids)
  show ?case
    using normalizedAt_None [of e i 0]
    by (cases "normalizedAt e i 0") (simp_all add: Cons List.map_filter_simps)
qed

lemma batch_results:
  "results (fetchListingsBatch e delayMs ids c) =
     List.map_filter (\<lambda>(i, t). normalizedAt e i t) (zip ids (arrivals e delayMs ids c))"
  by (simp add: fetchListingsBatch_def Let_def loop_exact)

lemma batch_failed:
  "failed (fetchListingsBatch e delayMs ids c) = filter (\<lambda>i. \<not> accepted e i) ids"
  by (simp add: fetchListingsBatch_def Let_def loop_exact)

lemma batch_final:
  "final (fetchListingsBatch e delayMs ids c) = foldl (\<lambda>c i. step e delayMs i c) c ids"
  by (simp add: fetchListingsBatch_def Let_def loop_exact)

lemma batch_duration:
  "durationMs (fetchListingsBatch e delayMs ids c) =
     clock (foldl (\<lambda>c i. step e delayMs i c) c ids) - clock c"
  by (simp add: fetchListingsBatch_def Let_def loop_exact)

lemma batch_strip:
  "map strip (results (fetchListingsBatch e delayMs ids c)) =
     List.map_filter (\<lambda>i. map_option strip (normalizedAt e i 0)) ids"
  by (simp add: batch_results strip_map_filter length_arrivals)

lemma batch_length:
  "length (results (fetchListingsBatch e delayMs ids c)) = length (filter (accepted e) ids)"
proof -
  have "length (List.map_filter (\<lambda>i. map_option strip (normalizedAt e i 0)) ids) =
        length (filter (accepted e) ids)"
  proof (induction ids)
    case Nil
    show ?case by (simp add: List.map_filter_simps)
  next
    case (Cons i ids)
    show ?case
      using normalizedAt_None [of e i 0]
      by (cases "normalizedAt e i 0") (simp_all add: Cons List.map_filter_simps)
  qed
  then show ?thesis
    using arg_cong [OF batch_strip [of e delayMs ids c], of length] by simp
qed


lemma foldl_count:
  "requestCount (foldl (\<lambda>c i. step e delayMs i c) c ids) = requestCount c + length ids"
  by (induction ids arbitrary: c) (simp_all add: step_count)

lemma foldl_last:
  assumes "\<forall>t. 0 \<le> lag e t"
    and "\<forall>i t. 0 \<le> duration e i t"
    and "delayNeeded delayMs \<le> 2147483647"
  shows "lastRequestTime c \<le> clock c \<Longrightarrow>
     lastRequestTime c + int (length ids) * delayNeeded delayMs
       \<le> lastRequestTime (foldl (\<lambda>c i. step e delayMs i c) c ids)"
proof (induction ids arbitrary: c)
  case Nil
  show ?case by simp
next
  case (Cons i ids)
  have "lastRequestTime c + delayNeeded delayMs + int (length ids) * delayNeeded delayMs
          \<le> lastRequestTime (step e delayMs i c) + int (length ids) * delayNeeded delayMs"
    using step_last [OF assms(1) Cons.prems assms(3), of i] by simp
  also have "\<dots> \<le> lastRequestTime (foldl (\<lambda>c i. step e delayMs i c) (step e delayMs i c) ids)"
    by (rule Cons.IH) (rule step_clock [OF assms(2)])
  finally show ?case by (simp add: algebra_simps)
qed

lemma foldl_clock:
  assumes "\<forall>i t. 0 \<le> duration e i t"
  shows "ids \<noteq> [] \<Longrightarrow>
     lastRequestTime (foldl (\<lambda>c i. step e delayMs i c) c ids)
       \<le> clock (foldl (\<lambda>c i. step e delayMs i c) c ids)"
  by (induction ids arbitrary: c rule: rev_induct) (simp_all add: step_clock [OF assms])

lemma foldl_elapsed:
  assumes "\<forall>t. 0 \<le> lag e t"
    and "\<forall>i t. 0 \<le> duration e i t"
    and "delayNeeded delayMs \<le> 2147483647"
  shows "clock c + int (length ids - 1) * delayNeeded delayMs
     \<le> clock (foldl (\<lambda>c i. step e delayMs i c) c ids)"
proof (cases ids)
  case Nil
  then show ?thesis by simp
next
  case (Cons i rest)
  let ?c1 = "step e delayMs i c"
  let ?cN = "foldl (\<lambda>c i. step e delayMs i c) c ids"
  have "clock c + int (length rest) * delayNeeded delayMs
          \<le> lastRequestTime ?c1 + int (length rest) * delayNeeded delayMs"
    using step_from_clock [OF assms(1), of c delayMs i] by simp
  also have "\<dots> \<le> lastRequestTime ?cN"
    using foldl_last [OF assms step_clock [OF assms(2)], of delayMs i c rest] Cons by simp
  also have "\<dots> \<le> clock ?cN"
    using foldl_clock [OF assms(2), of ids delayMs c] Cons by simp
  finally show ?thesis using Cons by simp
qed

lemma configured_delay:
  "int n * (case delayMs of None \<Rightarrow> 500 | Some d \<Rightarrow> d) \<le> int n * delayNeeded delayMs"
  by (cases delayMs) (simp_all add: delayNeeded_def mult_left_mono)

subsection \<open>The claims on the batch\<close>

lemma parsed_record:
  assumes "\<not> sections_throw rawData"
  shows "\<exists>d. parseListingResponse now rawData = Inr d
           \<and> title d = or_default (field_of Title (AddressDetails rawData)) []
           \<and> price d = number_or_null (NumericSellingPrice rawData)
           \<and> is_nontext (dutchPropertyType d) = label_is_nontext rawData"
proof -
  have "parseListingResponse now rawData \<noteq> Inl TypeError"
    using assms by (simp add: parse_Inl)
  then obtain d where d: "parseListingResponse now rawData = Inr d"
    unfolding not_Inl_TypeError by blast
  have "title d = or_default (field_of Title (AddressDetails rawData)) []"
    using parse_title [of now rawData] d assms by simp
  moreover have "price d = number_or_null (NumericSellingPrice rawData)"
    using parse_price [of now rawData] d assms by simp
  moreover have "is_nontext (dutchPropertyType d) = label_is_nontext rawData"
    using parse_label [of now rawData] d assms by (simp add: label_is_nontext_def)
  ultimately show ?thesis using d by blast
qed

text \<open>
  C1, as the code has it. \<open>normalizePropertyFromAPI\<close> returns no record exactly when the
  parsed record has an empty title and a price that is missing, zero or NaN; it throws
  exactly when there is a title or a price and the Dutch type label is a value that is
  no string; it returns a record in every other case. \<open>parseListingResponse\<close> of the
  client throws exactly when one of the characteristics it handles as a string is no
  string, and \<open>transformToStandard\<close> exactly when the label is no string or the parking or
  construction type cannot be made a text. The scraper catches what the parsing and the
  normalizer throw and has no record then; so a fetched raw record yields a record of the
  success list exactly when it has a title or a price and nothing is thrown on the way,
  and its identifier is put on the failure list otherwise.
\<close>

theorem normalizePropertyFromAPI_guard:
  "(normalizePropertyFromAPI data = Inr None) =
     (title data = [] \<and> \<not> truthy_opt truthy_number (price data))
   \<and> (normalizePropertyFromAPI data = Inl TypeError) =
       (\<not> (title data = [] \<and> \<not> truthy_opt truthy_number (price data))
        \<and> is_nontext (dutchPropertyType data))
   \<and> (\<exists>p. normalizePropertyFromAPI data = Inr (Some p)) =
       (\<not> (title data = [] \<and> \<not> truthy_opt truthy_number (price data))
        \<and> \<not> is_nontext (dutchPropertyType data))
   \<and> (parseListingResponse now rawData = Inl TypeError) = sections_throw rawData
   \<and> (transformToStandard data = Inl TypeError) = transform_throws data
   \<and> (\<exists>r. transformToStandard data = Inr r) = (\<not> transform_throws data)
   \<and> (scraper_parseListingResponse now rawData = None) = (\<not> yields_record rawData)
   \<and> length (results (fetchListingsBatch e delayMs ids c)) = length (filter (accepted e) ids)
   \<and> failed (fetchListingsBatch e delayMs ids c) = filter (\<lambda>i. \<not> accepted e i) ids"
proof -
  have "(\<exists>p. normalizePropertyFromAPI data = Inr (Some p)) =
      (normalizePropertyFromAPI data \<noteq> Inr None \<and> normalizePropertyFromAPI data \<noteq> Inl TypeError)"
    by (cases "normalizePropertyFromAPI data") (auto simp: error_is_TypeError)
  then have ns: "(\<exists>p. normalizePropertyFromAPI data = Inr (Some p)) =
       (\<not> (title data = [] \<and> \<not> truthy_opt truthy_number (price data))
        \<and> \<not> is_nontext (dutchPropertyType data))"
    unfolding normalize_None normalize_Inl by blast
  have ts: "(\<exists>r. transformToStandard data = Inr r) = (\<not> transform_throws data)"
    using transform_Inl [of data] not_Inl_TypeError [of "transformToStandard data"] by simp
  from ns ts normalize_None [of data] normalize_Inl [of data] parse_Inl [of now rawData]
    transform_Inl [of data] scraper_None [of now rawData]
    batch_length [of e delayMs ids c] batch_failed [of e delayMs ids c]
  show ?thesis by blast
qed

text \<open>
  C1 as stated fails: the empty object is fetched with success (status 200, a body), the
  normalizer returns no record for it, and the batch puts its identifier on the failure
  list and nothing on the success list.
\<close>

theorem normalizer_returns_null_cex:
  "bindE (parseListingResponse 0 empty_listing) normalizePropertyFromAPI = Inr None
   \<and> scraper_parseListingResponse 0 empty_listing = None
   \<and> reply blank_env 43267698 = Reply 200 (Some empty_listing)
   \<and> results (fetchListingsBatch blank_env None [43267698] idle) = []
   \<and> failed (fetchListingsBatch blank_env None [43267698] idle) = [43267698]"
proof -
  have s: "\<not> sections_throw empty_listing"
    by (simp add: sections_throw_def empty_listing_def resolve_spec_def)
  have h: "\<not> has_title_or_price empty_listing"
    by (simp add: has_title_or_price_def empty_listing_def)
  from parsed_record [OF s, of 0] obtain d where d:
    "parseListingResponse 0 empty_listing = Inr d"
    "title d = or_default (field_of Title (AddressDetails empty_listing)) []"
    "price d = number_or_null (NumericSellingPrice empty_listing)"
    by blast
  have "normalizePropertyFromAPI d = Inr None"
    unfolding normalize_None d by (simp add: empty_listing_def field_of_def)
  then have n: "bindE (parseListingResponse 0 empty_listing) normalizePropertyFromAPI = Inr None"
    by (simp add: d)
  have p: "scraper_parseListingResponse 0 empty_listing = None"
    by (simp add: scraper_None yields_record_def h)
  have r: "reply blank_env 43267698 = Reply 200 (Some empty_listing)"
    by (simp add: blank_env_def)
  have a: "\<not> accepted blank_env 43267698"
    by (simp add: accepted_def served_def r yields_record_def h)
  have l: "length (results (fetchListingsBatch blank_env None [43267698] idle)) = 0"
    by (simp add: batch_length a)
  have f: "failed (fetchListingsBatch blank_env None [43267698] idle) = [43267698]"
    by (simp add: batch_failed a)
  from n p r l f show ?thesis by simp
qed

text \<open>
  The path of the error is taken: the sample house with the number 7 for its type label
  has a title and a price, the normalizer throws on it, the scraper has no record, and
  the batch puts the identifier on the failure list.
\<close>

lemma numeric_label_rejected:
  "has_title_or_price numeric_label_listing
   \<and> bindE (parseListingResponse 0 numeric_label_listing) normalizePropertyFromAPI = Inl TypeError
   \<and> scraper_parseListingResponse 0 numeric_label_listing = None
   \<and> results (fetchListingsBatch numeric_label_env None [43267698] idle) = []
   \<and> failed (fetchListingsBatch numeric_label_env None [43267698] idle) = [43267698]"
proof -
  have s: "\<not> sections_throw numeric_label_listing"
    by (simp add: sections_throw_def numeric_label_listing_def resolve_spec_def flattened_def
        entries_ok_def entries_preorder_def str_def)
  have b: "label_is_nontext numeric_label_listing"
    by (simp add: label_is_nontext_def numeric_label_listing_def resolve_spec_def flattened_def
        entries_ok_def entries_preorder_def str_def)
  have h: "has_title_or_price numeric_label_listing"
    by (simp add: has_title_or_price_def numeric_label_listing_def example_listing_def str_def)
  from parsed_record [OF s, of 0] obtain d where d:
    "parseListingResponse 0 numeric_label_listing = Inr d"
    "title d = or_default (field_of Title (AddressDetails numeric_label_listing)) []"
    "price d = number_or_null (NumericSellingPrice numeric_label_listing)"
    "is_nontext (dutchPropertyType d) = label_is_nontext numeric_label_listing"
    by blast
  have t: "or_default (field_of Title (AddressDetails numeric_label_listing)) [] = str ''IJdok 37''"
    by (simp add: numeric_label_listing_def example_listing_def field_of_def str_def)
  have "normalizePropertyFromAPI d = Inl TypeError"
    unfolding normalize_Inl d t by (simp add: b str_def)
  then have n: "bindE (parseListingResponse 0 numeric_label_listing) normalizePropertyFromAPI =
      Inl TypeError"
    by (simp add: d)
  have p: "scraper_parseListingResponse 0 numeric_label_listing = None"
    by (simp add: scraper_None yields_record_def b)
  have a: "\<not> accepted numeric_label_env 43267698"
    by (simp add: accepted_def served_def numeric_label_env_def yields_record_def b)
  have l: "length (results (fetchListingsBatch numeric_label_env None [43267698] idle)) = 0"
    by (simp add: batch_length a)
  have f: "failed (fetchListingsBatch numeric_label_env None [43267698] idle) = [43267698]"
    by (simp add: batch_failed a)
  from h n p l f show ?thesis by simp
qed

text \<open>
  C2. For every list of identifiers, whatever the source answers, the batch makes exactly
  one request for each identifier (it neither stops early nor asks twice); every
  identifier is counted once, on the success list or on the failure list, so the two
  lengths add up to the length of the input; the failure list holds the identifiers that
  were not accepted, in the order of the input; the success list holds, in the order of
  the input, the record of each accepted identifier, made of the answer to that
  identifier and of the moment it arrived alone; these moments do not depend on what the
  source answers, so that a failure changes no record of another identifier; and
  leaving the failing identifiers out of the input gives the same records up to the time
  stamps. \<open>getListingsBatch\<close> of the client sorts the served bodies and the failing
  identifiers in the same way.
\<close>

theorem fetchListingsBatch_isolation:
  "length (results (fetchListingsBatch e delayMs ids c))
     + length (failed (fetchListingsBatch e delayMs ids c)) = length ids
   \<and> requestCount (final (fetchListingsBatch e delayMs ids c)) = requestCount c + length ids
   \<and> failed (fetchListingsBatch e delayMs ids c) = filter (\<lambda>i. \<not> accepted e i) ids
   \<and> results (fetchListingsBatch e delayMs ids c) =
       List.map_filter (\<lambda>(i, t). normalizedAt e i t) (zip ids (arrivals e delayMs ids c))
   \<and> arrivals (e\<lparr>reply := r\<rparr>) delayMs ids c = arrivals e delayMs ids c
   \<and> map strip (results (fetchListingsBatch e delayMs ids c)) =
       map strip (results (fetchListingsBatch e delayMs (filter (accepted e) ids) c'))
   \<and> getListingsBatch e delayMs ids c =
       (List.map_filter (served e) ids, filter (\<lambda>i. served e i = None) ids,
        foldl (\<lambda>c i. step e delayMs i c) c ids)"
proof -
  have n: "length (filter (accepted e) ids) + length (filter (\<lambda>i. \<not> accepted e i) ids) = length ids"
    by (rule sum_length_filter_compl)
  have s: "map strip (results (fetchListingsBatch e delayMs ids c)) =
       map strip (results (fetchListingsBatch e delayMs (filter (accepted e) ids) c'))"
    by (simp add: batch_strip map_filter_accepted)
  have l: "length (results (fetchListingsBatch e delayMs ids c))
             + length (failed (fetchListingsBatch e delayMs ids c)) = length ids"
    using n by (simp add: batch_length batch_failed)
  have q: "requestCount (final (fetchListingsBatch e delayMs ids c)) = requestCount c + length ids"
    by (simp add: batch_final foldl_count)
  have g: "getListingsBatch e delayMs ids c =
       (List.map_filter (served e) ids, filter (\<lambda>i. served e i = None) ids,
        foldl (\<lambda>c i. step e delayMs i c) c ids)"
    by (simp add: getListingsBatch_def raw_loop)
  have ar: "arrivals (e\<lparr>reply := r\<rparr>) delayMs ids c = arrivals e delayMs ids c"
    by (rule arrivals_reply)
  from l q batch_failed [of e delayMs ids c] batch_results [of e delayMs ids c] ar s g
  show ?thesis by blast
qed

text \<open>
  C9, as the code has it. Provided that no timer fires early on the reading of the clock
  (\<open>lag\<close> is not negative), that the reading does not go back while a request is awaited
  (\<open>duration\<close> is not negative), that the last request does not lie in the future, and
  that the delay in force is one the timer of the runtime takes as it is (at most
  \<open>2^31 - 1\<close> milliseconds): at least the delay in force elapses between the starts of
  two requests in a row, the time of the last request growing by at least \<open>delayNeeded\<close>
  with each request. So a batch over \<open>N\<close> identifiers takes at least \<open>(N - 1)\<close> times
  that delay, however short the requests are, and therefore at least \<open>(N - 1) * d\<close> for
  a configured delay \<open>d\<close> (a delay that is missing or zero stands for 500 milliseconds).
\<close>

theorem rateLimit_spacing:
  assumes "\<forall>t. 0 \<le> lag e t"
    and "\<forall>i t. 0 \<le> duration e i t"
    and "lastRequestTime c \<le> clock c"
    and "delayNeeded delayMs \<le> 2147483647"
  shows "lastRequestTime c + delayNeeded delayMs
           \<le> lastRequestTime (snd (getListingByTinyId e delayMs i c))
         \<and> int (length ids - 1) * delayNeeded delayMs
             \<le> durationMs (fetchListingsBatch e delayMs ids c)
         \<and> int (length ids - 1) * (case delayMs of None \<Rightarrow> 500 | Some d \<Rightarrow> d)
             \<le> durationMs (fetchListingsBatch e delayMs ids c)"
proof -
  have a: "lastRequestTime c + delayNeeded delayMs
             \<le> lastRequestTime (snd (getListingByTinyId e delayMs i c))"
    using step_last [OF assms(1) assms(3) assms(4), of i] by (simp add: step_def)
  have b: "int (length ids - 1) * delayNeeded delayMs
             \<le> durationMs (fetchListingsBatch e delayMs ids c)"
    using foldl_elapsed [OF assms(1) assms(2) assms(4), of c ids] by (simp add: batch_duration)
  have "int (length ids - 1) * (case delayMs of None \<Rightarrow> 500 | Some d \<Rightarrow> d)
          \<le> int (length ids - 1) * delayNeeded delayMs"
    by (rule configured_delay)
  also note b
  finally show ?thesis using a b by simp
qed

text \<open>
  C9 as stated fails. A timer of the runtime may fire one millisecond early on the
  reading of \<open>Date.now()\<close>: with a delay of 20 milliseconds the second request then
  starts 19 milliseconds after the first, and a run over three identifiers takes 38
  milliseconds, less than 40. And a delay above \<open>2^31 - 1\<close> milliseconds is taken by the
  timer as one millisecond: with a delay of 3000000000 milliseconds a run over three
  identifiers takes 3 milliseconds.
\<close>

theorem rateLimit_early_timer_cex:
  "lastRequestTime (snd (getListingByTinyId early_env (Some 20) 101 idle)) = 1000
   \<and> lastRequestTime
         (snd (getListingByTinyId early_env (Some 20) 102
                 (snd (getListingByTinyId early_env (Some 20) 101 idle)))) = 1019
   \<and> durationMs (fetchListingsBatch early_env (Some 20) [101, 102, 103] idle) = 38
   \<and> durationMs (fetchListingsBatch blank_env (Some 3000000000) [101, 102, 103] idle) = 3"
  by (simp add: batch_duration step_def getListing_snd rateLimit_def delayNeeded_def
      timerDelay_def Let_def early_env_def blank_env_def idle_def)

lemma example_accepted: "yields_record example_listing"
proof -
  have s: "\<not> sections_throw example_listing"
    by (simp add: sections_throw_def example_listing_def resolve_spec_def flattened_def
        entries_ok_def entries_preorder_def str_def)
  have b: "\<not> label_is_nontext example_listing"
    by (simp add: label_is_nontext_def example_listing_def resolve_spec_def flattened_def
        entries_ok_def entries_preorder_def str_def)
  have h: "has_title_or_price example_listing"
    by (simp add: has_title_or_price_def example_listing_def str_def)
  from s b h show ?thesis by (simp add: yields_record_def)
qed

text \<open>
  C2 at a list of three identifiers of which the second fails: two records, one failure,
  three requests.
\<close>

theorem fetchListingsBatch_isolation_witness:
  "length (results (fetchListingsBatch flaky_env (Some 500) [101, 102, 103] idle)) = 2
   \<and> failed (fetchListingsBatch flaky_env (Some 500) [101, 102, 103] idle) = [102]
   \<and> requestCount (final (fetchListingsBatch flaky_env (Some 500) [101, 102, 103] idle)) = 3"
proof -
  note t = fetchListingsBatch_isolation [of flaky_env "Some 500" "[101, 102, 103]" idle]
  have a: "filter (\<lambda>i. \<not> accepted flaky_env i) [101, 102, 103] = [102]"
    by (simp add: accepted_def served_def flaky_env_def example_accepted)
  from t have f: "failed (fetchListingsBatch flaky_env (Some 500) [101, 102, 103] idle) = [102]"
    unfolding a by blast
  from t have "length (results (fetchListingsBatch flaky_env (Some 500) [101, 102, 103] idle))
      + length (failed (fetchListingsBatch flaky_env (Some 500) [101, 102, 103] idle))
      = length [101, 102, 103 :: nat]"
    by blast
  then have l: "length (results (fetchListingsBatch flaky_env (Some 500) [101, 102, 103] idle)) = 2"
    unfolding f by simp
  from t have "requestCount (final (fetchListingsBatch flaky_env (Some 500) [101, 102, 103] idle))
      = requestCount idle + length [101, 102, 103 :: nat]"
    by blast
  then have q: "requestCount (final (fetchListingsBatch flaky_env (Some 500) [101, 102, 103] idle)) = 3"
    by (simp add: idle_def)
  from l f q show ?thesis by blast
qed

text \<open>
  C9 at three identifiers and a delay of 500 milliseconds, with timers that fire on time
  and requests that take no time: the run takes at least 1000 milliseconds, and exactly
  that.
\<close>

theorem rateLimit_spacing_witness:
  "(\<forall>t. 0 \<le> lag flaky_env t)
   \<and> (\<forall>i t. 0 \<le> duration flaky_env i t)
   \<and> lastRequestTime idle \<le> clock idle
   \<and> delayNeeded (Some 500) \<le> 2147483647
   \<and> 1000 \<le> durationMs (fetchListingsBatch flaky_env (Some 500) [101, 102, 103] idle)"
proof -
  have a: "\<forall>t. 0 \<le> lag flaky_env t"
    by (simp add: flaky_env_def)
  have b: "\<forall>i t. 0 \<le> duration flaky_env i t"
    by (simp add: flaky_env_def)
  have c: "lastRequestTime idle \<le> clock idle"
    by (simp add: idle_def)
  have d: "delayNeeded (Some 500) \<le> 2147483647"
    by (simp add: delayNeeded_def)
  from rateLimit_spacing [OF a b c d, of 101 "[101, 102, 103]"]
  have "1000 \<le> durationMs (fetchListingsBatch flaky_env (Some 500) [101, 102, 103] idle)"
    by simp
  with a b c d show ?thesis by blast
qed

lemma spacing_is_tight:
  "durationMs (fetchListingsBatch flaky_env (Some 500) [101, 102, 103] idle) = 1000"
  by (simp add: batch_duration step_def getListing_snd rateLimit_def delayNeeded_def
      timerDelay_def Let_def flaky_env_def idle_def)

subsection \<open>The sample listing and the examples of the specification\<close>

lemma example_standard:
  "map_sum id (\<lambda>r. (property_type r, price_per_sqm r,
                    country_specific r ''price_per_sqm_original''))
     (bindE (parseListingResponse now example_listing) transformToStandard) =
   Inr (str ''house'', Some (Fin 3750), Some (VString (str ''3750'')))"
proof -
  have t: "normalizePropertyType (Some (Str (str ''Eengezinswoning''))) (Some (str ''House'')) =
      Inr (str ''house'')"
    by (simp add: normalizePropertyType_def str_def toLowerCase_def lower_unit_def truthy_string_def)
  have p: "parsePricePerSqm (Some (str ''3750'')) = Some (Fin 3750)"
    by (simp add: parsePricePerSqm_def str_def isWhiteSpace_def parseFloat_def isDigit_def Let_def
        digitsValue_def scale10_def)
  have f: "extractFeatures (example_data\<lparr>scrapedAt := now\<rparr>) = Inr []"
    by (simp add: extractFeatures_def example_data_def)
  have d: "dutchPropertyType (example_data\<lparr>scrapedAt := now\<rparr>) =
      Some (Str (str ''Eengezinswoning''))"
    by (simp add: example_data_def)
  have ob: "objectType (example_data\<lparr>scrapedAt := now\<rparr>) = str ''House''"
    by (simp add: example_data_def)
  have pp: "pricePerSqm (example_data\<lparr>scrapedAt := now\<rparr>) = Some (str ''3750'')"
    by (simp add: example_data_def)
  show ?thesis
    unfolding example_parse
    by (simp add: transformToStandard_def Let_def d ob t f countrySpecific_apply pp p)
qed

text \<open>
  The texts of the end-to-end example of the specification: the price text, the area text
  and the type label.
\<close>

lemma example_texts:
  "parsePrice ([8364, 32] @ str ''450.000 k.k.'') = Some (Fin 450000)
   \<and> extractSqm (str ''120 m'' @ [178]) = Some (Fin 120)
   \<and> normalizePropertyType (Some (Str (str ''Eengezinswoning''))) None = Inr (str ''house'')"
proof -
  have a: "parsePrice ([8364, 32] @ str ''450.000 k.k.'') = Some (Fin 450000)"
    by (simp add: parsePrice_def parseInt_def str_def isWhiteSpace_def isDigit_def digitsValue_def
        truthy_string_def Let_def)
  have b: "extractSqm (str ''120 m'' @ [178]) = Some (Fin 120)"
    by (simp add: extractSqm_def sqmAt_def parseInt_def str_def isWhiteSpace_def isDigit_def
        digitsValue_def truthy_string_def Let_def)
  have c: "normalizePropertyType (Some (Str (str ''Eengezinswoning''))) None = Inr (str ''house'')"
    by (simp add: normalizePropertyType_def str_def toLowerCase_def lower_unit_def truthy_string_def)
  from a b c show ?thesis by blast
qed

end
